theory Spec2Isabelle
  imports Complex_Main
begin

chapter \<open>The steam-trap dashboard: classification and aggregation\<close>

text \<open>
  A shallow embedding of the telemetry core of the dashboard: the status classifier
  \<open>getTrapStatus\<close>, the filter \<open>getFilteredDevices\<close> and the aggregator
  \<open>calculateKPIs\<close> of the device table, and the device identification of
  \<open>Dashboard.loadDevices\<close>. The functions are pure functions of the reading lists,
  the device list and the rows; the fetching of readings, the timers and the rendering
  are outside the model.
\<close>

section \<open>Strings: the JavaScript string operations the dashboard uses\<close>

text \<open>
  Strings are ASCII texts (\<open>char list\<close>). \<open>toLowerCase\<close> maps the letters A to Z to
  a to z and leaves every other character as it is; \<open>includes_str s sub\<close> is
  \<open>s.includes(sub)\<close>: \<open>sub\<close> occurs in \<open>s\<close> as a contiguous run.
\<close>

definition toLowerCaseChar :: "char \<Rightarrow> char" where
  "toLowerCaseChar c =
     (case map_of (zip ''ABCDEFGHIJKLMNOPQRSTUVWXYZ'' ''abcdefghijklmnopqrstuvwxyz'') c of
        Some l \<Rightarrow> l
      | None \<Rightarrow> c)"

definition toLowerCase :: "string \<Rightarrow> string" where
  "toLowerCase s = map toLowerCaseChar s"

fun startsWith :: "string \<Rightarrow> string \<Rightarrow> bool" where
  "startsWith s [] = True"
| "startsWith [] (p # ps) = False"
| "startsWith (c # cs) (p # ps) = (c = p \<and> startsWith cs ps)"

fun includes_str :: "string \<Rightarrow> string \<Rightarrow> bool" where
  "includes_str [] sub = (sub = [])"
| "includes_str (c # cs) sub = (startsWith (c # cs) sub \<or> includes_str cs sub)"

text \<open>
  \<open>x?.toLowerCase().includes(k)\<close> on a field that may be missing: a missing field
  gives \<open>undefined\<close>, which every caller treats as false.
\<close>

definition lowerIncludes :: "string option \<Rightarrow> string \<Rightarrow> bool" where
  "lowerIncludes x k = (case x of None \<Rightarrow> False | Some s \<Rightarrow> includes_str (toLowerCase s) k)"

subsection \<open>parseInt\<close>

text \<open>
  \<open>parseInt(s)\<close> with no radix: leading white space is skipped, one sign is read, a
  prefix \<open>0x\<close> or \<open>0X\<close> selects radix 16, and the longest run of digits of the radix is
  the result. No digit at all gives \<open>NaN\<close>, modelled as \<open>None\<close>.
\<close>

definition isWhiteSpace :: "char \<Rightarrow> bool" where
  "isWhiteSpace c = (c \<in> set [CHR 0x20, CHR 0x09, CHR 0x0A, CHR 0x0B, CHR 0x0C, CHR 0x0D])"

definition digitVal :: "char \<Rightarrow> nat option" where
  "digitVal c =
     map_of (zip ''0123456789abcdef'' [0, 1, 2, 3, 4, 5, 6, 7, 8, 9, 10, 11, 12, 13, 14, 15] @
             zip ''ABCDEF'' [10, 11, 12, 13, 14, 15]) c"

fun parseDigits :: "nat \<Rightarrow> string \<Rightarrow> nat option \<Rightarrow> nat option" where
  "parseDigits R [] acc = acc"
| "parseDigits R (c # cs) acc =
     (case digitVal c of
        None \<Rightarrow> acc
      | Some d \<Rightarrow>
          if d < R
          then parseDigits R cs (Some (case acc of None \<Rightarrow> d | Some a \<Rightarrow> a * R + d))
          else acc)"

definition parseInt :: "string \<Rightarrow> int option" where
  "parseInt s =
     (let S = dropWhile isWhiteSpace s;
          sign = (if startsWith S ''-'' then - 1 else 1 :: int);
          S1 = (if startsWith S ''-'' \<or> startsWith S ''+'' then tl S else S);
          hex = (startsWith S1 ''0x'' \<or> startsWith S1 ''0X'');
          R = (if hex then 16 else 10);
          S2 = (if hex then drop 2 S1 else S1)
      in case parseDigits R S2 None of
           None \<Rightarrow> None
         | Some n \<Rightarrow> Some (sign * int n))"

subsection \<open>Numbers as text\<close>

text \<open>
  The decimal text of an integer, as \<open>String(n)\<close> gives it for an integral number
  below \<open>10^21\<close> in magnitude. \<open>integerToString\<close> reads a real number through its
  integer part; it instantiates the number-to-string parameter of the classifier at
  integral readings.
\<close>

fun natDigits :: "nat \<Rightarrow> string" where
  "natDigits n =
     (if n < 10 then [''0123456789'' ! n]
      else natDigits (n div 10) @ [''0123456789'' ! (n mod 10)])"

definition integerToString :: "real \<Rightarrow> string" where
  "integerToString x =
     (if \<lfloor>x\<rfloor> < 0 then CHR ''-'' # natDigits (nat (- \<lfloor>x\<rfloor>)) else natDigits (nat \<lfloor>x\<rfloor>))"

section \<open>Data model\<close>

text \<open>
  A sensor value is \<open>string | number | null\<close>. A number is a real number: every
  finite double is one; \<open>NaN\<close> and the infinities are outside the model. \<open>Null\<close>
  stands for both \<open>null\<close> and \<open>undefined\<close>, which the
  code never tells apart. A string field that the code reads through \<open>?.\<close> is an
  option. The field \<open>val\<close> is the source's \<open>value\<close>; the fields of the metadata
  and of a table entry that share a name with another record carry the prefixes
  \<open>meta_\<close> and \<open>info_\<close>.
\<close>

datatype jsvalue = Num real | Str string | Null

text \<open>
  The operations of the runtime on numbers are a parameter of the model, the record
  \<open>Runtime\<close>: \<open>numToString\<close> is \<open>String(x)\<close>, and \<open>fsub\<close>, \<open>fadd\<close>, \<open>fdiv\<close> and
  \<open>fmul\<close> are \<open>x - y\<close>, \<open>x + y\<close>, \<open>x / y\<close> and \<open>x * y\<close> on doubles, each with
  the rounding the runtime gives it. Nothing is assumed of them: what is proved holds
  for every runtime. Counting in the natural numbers and adding the integers 10 and 15
  are exact in doubles and stay plain arithmetic.
\<close>

record Runtime =
  numToString :: "real \<Rightarrow> string"
  fsub :: "real \<Rightarrow> real \<Rightarrow> real"
  fadd :: "real \<Rightarrow> real \<Rightarrow> real"
  fdiv :: "real \<Rightarrow> real \<Rightarrow> real"
  fmul :: "real \<Rightarrow> real \<Rightarrow> real"

record SensorDataPoint =
  time :: jsvalue
  sensor :: "string option"
  val :: jsvalue

record DeviceDetail =
  devID :: string
  devTypeID :: "string option"

record DeviceMetadata =
  meta_devID :: string
  devName :: string
  meta_devTypeID :: "string option"
  devTypeName :: "string option"

datatype Icon = CheckMark | WarningSign

record StatusInfo =
  code :: int
  info_color :: string
  info_description :: string
  info_icon :: Icon

record TrapStatus =
  status :: string
  statusCode :: int
  color :: string
  description :: string
  icon :: Icon

section \<open>The status classifier \<open>getTrapStatus\<close>\<close>

text \<open>The table \<open>statusMapping\<close>, in the order \<open>Object.entries\<close> walks it.\<close>

definition statusMapping :: "(string \<times> StatusInfo) list" where
  "statusMapping =
     [(''Normal'',
       \<lparr>code = 1, info_color = ''text-green-600 bg-green-100'',
        info_description = ''Steam trap is operating normally with proper condensate discharge and no steam loss.'',
        info_icon = CheckMark\<rparr>),
      (''Heavy Flooding'',
       \<lparr>code = 3, info_color = ''text-orange-600 bg-orange-100'',
        info_description = ''Steam trap is experiencing heavy flooding. Condensate is not being discharged properly.'',
        info_icon = WarningSign\<rparr>),
      (''Choking'',
       \<lparr>code = 6, info_color = ''text-red-600 bg-red-100'',
        info_description = ''Steam trap is choking. Flow is restricted and requires immediate attention.'',
        info_icon = WarningSign\<rparr>),
      (''Heavy Leak'',
       \<lparr>code = 9, info_color = ''text-red-600 bg-red-100'',
        info_description = ''Steam trap has a heavy leak. Steam is being lost and energy efficiency is compromised.'',
        info_icon = WarningSign\<rparr>),
      (''Valve Closed'',
       \<lparr>code = 5, info_color = ''text-gray-600 bg-gray-100'',
        info_description = ''Valve is closed. No flow is detected through the steam trap.'',
        info_icon = WarningSign\<rparr>)]"

definition mkStatus :: "string \<times> StatusInfo \<Rightarrow> TrapStatus" where
  "mkStatus e =
     \<lparr>status = fst e, statusCode = code (snd e), color = info_color (snd e),
      description = info_description (snd e), icon = info_icon (snd e)\<rparr>"

definition defaultStatus :: TrapStatus where
  "defaultStatus =
     \<lparr>status = ''Normal'', statusCode = 1, color = ''text-green-600 bg-green-100'',
      description = ''Steam trap appears to be operating normally.'', icon = CheckMark\<rparr>"

definition isStatusSensor :: "SensorDataPoint \<Rightarrow> bool" where
  "isStatusSensor data =
     (lowerIncludes (sensor data) ''status'' \<or>
      lowerIncludes (sensor data) ''condition'' \<or>
      lowerIncludes (sensor data) ''trap'')"

definition isInletTemp :: "SensorDataPoint \<Rightarrow> bool" where
  "isInletTemp data = (lowerIncludes (sensor data) ''inlet'' \<and> lowerIncludes (sensor data) ''temp'')"

definition isOutletTemp :: "SensorDataPoint \<Rightarrow> bool" where
  "isOutletTemp data = (lowerIncludes (sensor data) ''outlet'' \<and> lowerIncludes (sensor data) ''temp'')"

text \<open>
  \<open>String(v)\<close> for a value that is not null. The text of a number is what the
  runtime's number-to-string conversion gives.
\<close>

definition String_of :: "Runtime \<Rightarrow> jsvalue \<Rightarrow> string" where
  "String_of rt v =
     (case v of Num x \<Rightarrow> numToString rt x | Str s \<Rightarrow> s | Null \<Rightarrow> ''null'')"

text \<open>Truthiness of a value and \<open>typeof v === 'number'\<close>.\<close>

definition truthy :: "jsvalue \<Rightarrow> bool" where
  "truthy v = (case v of Num x \<Rightarrow> x \<noteq> 0 | Str s \<Rightarrow> s \<noteq> [] | Null \<Rightarrow> False)"

definition isNumber :: "jsvalue \<Rightarrow> bool" where
  "isNumber v = (case v of Num x \<Rightarrow> True | _ \<Rightarrow> False)"

definition numberOf :: "jsvalue \<Rightarrow> real" where
  "numberOf v = (case v of Num x \<Rightarrow> x | _ \<Rightarrow> 0)"

text \<open>
  The guard of the temperature fallback, shared by \<open>getTrapStatus\<close> and
  \<open>calculateKPIs\<close>: both readings found, both values truthy, both of type number.
  The result is the pair of numbers when the guard holds.
\<close>

definition tempPair :: "SensorDataPoint list \<Rightarrow> (real \<times> real) option" where
  "tempPair sensorData =
     (case (find isInletTemp sensorData, find isOutletTemp sensorData) of
        (Some inletTemp, Some outletTemp) \<Rightarrow>
          if truthy (val inletTemp) \<and> truthy (val outletTemp) \<and>
             isNumber (val inletTemp) \<and> isNumber (val outletTemp)
          then Some (numberOf (val inletTemp), numberOf (val outletTemp))
          else None
      | _ \<Rightarrow> None)"

text \<open>The two loops over the table: first by code, then by name.\<close>

definition matchCode :: "int option \<Rightarrow> (string \<times> StatusInfo) option" where
  "matchCode parsed = find (\<lambda>e. Some (code (snd e)) = parsed) statusMapping"

definition matchName :: "string \<Rightarrow> (string \<times> StatusInfo) option" where
  "matchName v = find (\<lambda>e. includes_str (toLowerCase v) (toLowerCase (fst e))) statusMapping"

definition statusLookup :: "Runtime \<Rightarrow> SensorDataPoint list \<Rightarrow> (string \<times> StatusInfo) option" where
  "statusLookup rt sensorData =
     (case find isStatusSensor sensorData of
        None \<Rightarrow> None
      | Some statusSensor \<Rightarrow>
          (if val statusSensor = Null then None
           else
             (let v = String_of rt (val statusSensor)
              in (case matchCode (parseInt v) of
                    Some e \<Rightarrow> Some e
                  | None \<Rightarrow> matchName v))))"

text \<open>
  The results of the temperature fallback:
  \<open>statusMapping[name] ? {status: name, statusCode: c, ...statusMapping[name]} : fallback\<close>.
  The spread also copies the property \<open>code\<close> of the entry into the object; the
  declared result type has no such field, and the model leaves it out.
\<close>

definition heuristicStatus :: "string \<Rightarrow> int \<Rightarrow> TrapStatus \<Rightarrow> TrapStatus" where
  "heuristicStatus name c fallback =
     (case map_of statusMapping name of
        Some info \<Rightarrow>
          \<lparr>status = name, statusCode = c, color = info_color info,
           description = info_description info, icon = info_icon info\<rparr>
      | None \<Rightarrow> fallback)"

definition goodDifferential :: TrapStatus where
  "goodDifferential =
     \<lparr>status = ''Normal'', statusCode = 1, color = ''text-green-600 bg-green-100'',
      description = ''Good temperature differential indicates proper steam trap operation.'',
      icon = CheckMark\<rparr>"

definition lowDifferential :: TrapStatus where
  "lowDifferential =
     \<lparr>status = ''Heavy Flooding'', statusCode = 3, color = ''text-orange-600 bg-orange-100'',
      description = ''Low temperature differential suggests flooding condition.'',
      icon = WarningSign\<rparr>"

definition getTrapStatus :: "Runtime \<Rightarrow> SensorDataPoint list \<Rightarrow> TrapStatus" where
  "getTrapStatus rt sensorData =
     (case statusLookup rt sensorData of
        Some e \<Rightarrow> mkStatus e
      | None \<Rightarrow>
          (case tempPair sensorData of
             Some (inlet, outlet) \<Rightarrow>
               (let tempDiff = fsub rt inlet outlet
                in (if tempDiff > 100 then heuristicStatus ''Normal'' 1 goodDifferential
                    else if tempDiff < 20 then heuristicStatus ''Heavy Flooding'' 3 lowDifferential
                    else defaultStatus))
           | None \<Rightarrow> defaultStatus))"

section \<open>Device rows\<close>

record DeviceRowData =
  device :: DeviceDetail
  metadata :: "DeviceMetadata option"
  sensorData :: "SensorDataPoint list"
  isLoading :: bool
  error :: "string option"
  lastUpdated :: "int option"

text \<open>
  \<open>deviceRows\<close> is a \<open>Record<string, DeviceRowData>\<close>: an association list from
  device identifiers to rows, \<open>map_of\<close> for \<open>deviceRows[id]\<close> and \<open>map snd\<close> for
  \<open>Object.values\<close>. The keys of an object are distinct.
\<close>

type_synonym DeviceRows = "(string \<times> DeviceRowData) list"

section \<open>The filter \<open>getFilteredDevices\<close>\<close>

definition filterSwitch :: "string \<Rightarrow> TrapStatus \<Rightarrow> bool" where
  "filterSwitch statusFilter st =
     (if statusFilter = ''normal'' then statusCode st = 1
      else if statusFilter = ''warning'' then statusCode st = 3 \<or> statusCode st = 5
      else if statusFilter = ''critical'' then statusCode st = 6 \<or> statusCode st = 9
      else if statusFilter = ''offline'' then False
      else True)"

definition matchesFilter :: "Runtime \<Rightarrow> string \<Rightarrow> DeviceRowData option \<Rightarrow> bool" where
  "matchesFilter rt statusFilter rowData =
     (case rowData of
        None \<Rightarrow> statusFilter = ''offline''
      | Some row \<Rightarrow>
          if length (sensorData row) = 0 then statusFilter = ''offline''
          else filterSwitch statusFilter (getTrapStatus rt (sensorData row)))"

definition getFilteredDevices ::
  "Runtime \<Rightarrow> string \<Rightarrow> DeviceDetail list \<Rightarrow> DeviceRows \<Rightarrow> DeviceDetail list" where
  "getFilteredDevices rt statusFilter devices deviceRows =
     (if statusFilter = ''all'' then devices
      else filter (\<lambda>d. matchesFilter rt statusFilter (map_of deviceRows (devID d))) devices)"

section \<open>The aggregator \<open>calculateKPIs\<close>\<close>

record StatusCounts =
  normal :: nat
  warning :: nat
  critical :: nat
  offline :: nat

text \<open>
  The local variables the \<open>forEach\<close> loop updates. The local \<open>devicesWithData\<close> is
  computed and never read, and is left out.
\<close>

record KpiAcc =
  acc_statusCounts :: StatusCounts
  acc_totalEnergyLoss :: real
  acc_avgTempDifferential :: real
  acc_tempDiffCount :: nat

definition initAcc :: KpiAcc where
  "initAcc =
     \<lparr>acc_statusCounts = \<lparr>normal = 0, warning = 0, critical = 0, offline = 0\<rparr>,
      acc_totalEnergyLoss = 0, acc_avgTempDifferential = 0, acc_tempDiffCount = 0\<rparr>"

text \<open>The \<open>switch (status.statusCode)\<close> of the loop body, its \<open>default\<close> branch last.\<close>

definition countStatus :: "int \<Rightarrow> KpiAcc \<Rightarrow> KpiAcc" where
  "countStatus c acc =
     (let sc = acc_statusCounts acc
      in if c = 1 then acc\<lparr>acc_statusCounts := sc\<lparr>normal := normal sc + 1\<rparr>\<rparr>
         else if c = 3 \<or> c = 5 then acc\<lparr>acc_statusCounts := sc\<lparr>warning := warning sc + 1\<rparr>\<rparr>
         else if c = 6 \<or> c = 9 then
           acc\<lparr>acc_statusCounts := sc\<lparr>critical := critical sc + 1\<rparr>,
               acc_totalEnergyLoss := acc_totalEnergyLoss acc + (if c = 9 then 15 else 10)\<rparr>
         else acc\<lparr>acc_statusCounts := sc\<lparr>warning := warning sc + 1\<rparr>\<rparr>)"

definition addTempDiff :: "Runtime \<Rightarrow> SensorDataPoint list \<Rightarrow> KpiAcc \<Rightarrow> KpiAcc" where
  "addTempDiff rt readings acc =
     (case tempPair readings of
        Some (inlet, outlet) \<Rightarrow>
          acc\<lparr>acc_avgTempDifferential :=
                fadd rt (acc_avgTempDifferential acc) (fsub rt inlet outlet),
              acc_tempDiffCount := acc_tempDiffCount acc + 1\<rparr>
      | None \<Rightarrow> acc)"

definition kpiRow :: "Runtime \<Rightarrow> KpiAcc \<Rightarrow> DeviceRowData \<Rightarrow> KpiAcc" where
  "kpiRow rt acc row =
     (if length (sensorData row) > 0
      then addTempDiff rt (sensorData row)
             (countStatus (statusCode (getTrapStatus rt (sensorData row))) acc)
      else acc\<lparr>acc_statusCounts :=
                  (acc_statusCounts acc)\<lparr>offline := offline (acc_statusCounts acc) + 1\<rparr>\<rparr>)"

definition kpiLoop :: "Runtime \<Rightarrow> DeviceRows \<Rightarrow> KpiAcc" where
  "kpiLoop rt deviceRows = foldl (kpiRow rt) initAcc (map snd deviceRows)"

text \<open>
  The result of \<open>calculateKPIs\<close>. Four of its fields are texts made by
  \<open>toFixed(1)\<close>, the runtime's fixed-point formatting, a parameter \<open>toFixed1\<close> of the
  model. The field \<open>lastUpdated\<close>, the time of the call, is left out.
\<close>

record FleetKPIs =
  totalDevices :: nat
  onlineDevices :: nat
  efficiency :: string
  uptime :: string
  statusCounts :: StatusCounts
  totalEnergyLoss :: string
  avgTempDifferential :: string

definition isOnline :: "DeviceRowData \<Rightarrow> bool" where
  "isOnline row = ((error row = None \<or> error row = Some []) \<and> lastUpdated row \<noteq> None)"

definition calculateKPIs ::
  "(real \<Rightarrow> string) \<Rightarrow> Runtime \<Rightarrow> DeviceDetail list \<Rightarrow> DeviceRows \<Rightarrow> FleetKPIs" where
  "calculateKPIs toFixed1 rt devices deviceRows =
     (let total = length devices;
          online = length (filter isOnline (map snd deviceRows));
          acc = kpiLoop rt deviceRows;
          avg = (if acc_tempDiffCount acc > 0
                 then fdiv rt (acc_avgTempDifferential acc) (real (acc_tempDiffCount acc))
                 else 0);
          eff = (if total > 0
                 then fmul rt (fdiv rt (real (normal (acc_statusCounts acc))) (real total)) 100
                 else 0);
          up = (if total > 0 then fmul rt (fdiv rt (real online) (real total)) 100 else 0)
      in \<lparr>totalDevices = total, onlineDevices = online, efficiency = toFixed1 eff,
          uptime = toFixed1 up, statusCounts = acc_statusCounts acc,
          totalEnergyLoss = toFixed1 (acc_totalEnergyLoss acc),
          avgTempDifferential = toFixed1 avg\<rparr>)"

section \<open>Device identification in \<open>Dashboard.loadDevices\<close>\<close>

definition coarseFilter :: "DeviceDetail \<Rightarrow> bool" where
  "coarseFilter d =
     (devTypeID d = Some ''STEAM_TRAP3'' \<or>
      lowerIncludes (devTypeID d) ''steamtrap'' \<or>
      lowerIncludes (devTypeID d) ''steam'')"

definition fineFilter :: "DeviceMetadata \<Rightarrow> bool" where
  "fineFilter m =
     (lowerIncludes (devTypeName m) ''steam trap'' \<or>
      lowerIncludes (devTypeName m) ''steamtrap'' \<or>
      meta_devTypeID m = Some ''STEAM_TRAP3'' \<or>
      lowerIncludes (meta_devTypeID m) ''steamtrap'')"

text \<open>
  The model starts from the list that \<open>getDeviceDetails\<close> returned.
  \<open>getDeviceMetaData\<close> is the collaborator's call; \<open>None\<close> stands for a call that
  throws and for one that returns no metadata, which the loop both skips. The result
  is the pair of the final device list and the metadata map, the arguments of the last
  \<open>setDevices\<close> and \<open>setDeviceMetadata\<close>.
\<close>

definition keepDevice ::
  "DeviceDetail list \<Rightarrow> (string \<times> DeviceMetadata) option \<Rightarrow> DeviceDetail list" where
  "keepDevice steamTrapDevices result =
     (case result of
        None \<Rightarrow> []
      | Some (deviceId, m) \<Rightarrow>
          if fineFilter m
          then (case find (\<lambda>d. devID d = deviceId) steamTrapDevices of
                  Some d \<Rightarrow> [d]
                | None \<Rightarrow> [])
          else [])"

definition keepMetadata ::
  "(string \<rightharpoonup> DeviceMetadata) \<Rightarrow> (string \<times> DeviceMetadata) option \<Rightarrow> (string \<rightharpoonup> DeviceMetadata)" where
  "keepMetadata metadataMap result =
     (case result of
        None \<Rightarrow> metadataMap
      | Some (deviceId, m) \<Rightarrow> if fineFilter m then metadataMap(deviceId \<mapsto> m) else metadataMap)"

definition loadDevices ::
  "(string \<Rightarrow> DeviceMetadata option) \<Rightarrow> DeviceDetail list \<Rightarrow>
     DeviceDetail list \<times> (string \<rightharpoonup> DeviceMetadata)" where
  "loadDevices getDeviceMetaData deviceDetails =
     (let steamTrapDevices = filter coarseFilter deviceDetails;
          metadataResults =
            map (\<lambda>d. case getDeviceMetaData (devID d) of
                        None \<Rightarrow> None
                      | Some m \<Rightarrow> Some (devID d, m)) steamTrapDevices
      in (concat (map (keepDevice steamTrapDevices) metadataResults),
          foldl keepMetadata Map.empty metadataResults))"


section \<open>Vocabulary of the properties\<close>

subsection \<open>The table of statuses and the tiers\<close>

text \<open>
  \<open>statusTable\<close> pairs each status name with its code, \<open>healthTable\<close> adds the
  tier, \<open>tiers\<close> are the four tier names. \<open>unitCounts t\<close> are the four counters with
  a one at tier \<open>t\<close>. \<open>inTier t st\<close> holds when both switches of the code put a status
  in tier \<open>t\<close>: the filter returns it under \<open>t\<close>, and the aggregator's switch adds one
  to the counter of \<open>t\<close> and to no other.
\<close>

definition statusTable :: "(string \<times> int) list" where
  "statusTable = [(''Normal'', 1), (''Heavy Flooding'', 3), (''Valve Closed'', 5), (''Choking'', 6), (''Heavy Leak'', 9)]"

definition healthTable :: "(string \<times> int \<times> string) list" where
  "healthTable =
     [(''Normal'', 1, ''normal''), (''Heavy Flooding'', 3, ''warning''),
      (''Valve Closed'', 5, ''warning''), (''Choking'', 6, ''critical''),
      (''Heavy Leak'', 9, ''critical'')]"

definition tiers :: "string list" where
  "tiers = [''normal'', ''warning'', ''critical'', ''offline'']"

definition unitCounts :: "string \<Rightarrow> StatusCounts" where
  "unitCounts t =
     \<lparr>normal = (if t = ''normal'' then 1 else 0), warning = (if t = ''warning'' then 1 else 0),
      critical = (if t = ''critical'' then 1 else 0), offline = (if t = ''offline'' then 1 else 0)\<rparr>"

definition inTier :: "string \<Rightarrow> TrapStatus \<Rightarrow> bool" where
  "inTier t st =
     (filterSwitch t st \<and> acc_statusCounts (countStatus (statusCode st) initAcc) = unitCounts t)"

text \<open>\<open>labelValue\<close>: the label and the value of a reading, without its time.\<close>

definition labelValue :: "SensorDataPoint \<Rightarrow> string option \<times> jsvalue" where
  "labelValue d = (sensor d, val d)"

subsection \<open>What one pass of the aggregator's loop adds\<close>

text \<open>
  \<open>rowCounts rt row\<close> is what one pass of the loop body adds to the four counters,
  \<open>rowEnergy\<close> what it adds to the energy loss, \<open>codeTempDiff\<close> what it adds to the
  sum of temperature differences (\<open>None\<close> when it adds nothing). A row is
  \<open>classifiedAs\<close> a name and code when it has readings and \<open>getTrapStatus\<close> gives
  them that name and code.
\<close>

definition rowCounts :: "Runtime \<Rightarrow> DeviceRowData \<Rightarrow> StatusCounts" where
  "rowCounts rt row = acc_statusCounts (kpiRow rt initAcc row)"

definition addCounts :: "StatusCounts \<Rightarrow> StatusCounts \<Rightarrow> StatusCounts" where
  "addCounts x y =
     \<lparr>normal = normal x + normal y, warning = warning x + warning y,
      critical = critical x + critical y, offline = offline x + offline y\<rparr>"

definition totalCount :: "StatusCounts \<Rightarrow> nat" where
  "totalCount sc = normal sc + warning sc + critical sc + offline sc"

definition classifiedAs :: "Runtime \<Rightarrow> string \<Rightarrow> int \<Rightarrow> DeviceRowData \<Rightarrow> bool" where
  "classifiedAs rt name c row =
     (sensorData row \<noteq> [] \<and> status (getTrapStatus rt (sensorData row)) = name \<and>
      statusCode (getTrapStatus rt (sensorData row)) = c)"

definition rowEnergy :: "Runtime \<Rightarrow> DeviceRowData \<Rightarrow> real" where
  "rowEnergy rt row =
     (if classifiedAs rt ''Heavy Leak'' 9 row then 15
      else if classifiedAs rt ''Choking'' 6 row then 10 else 0)"

definition codeTempDiff :: "Runtime \<Rightarrow> DeviceRowData \<Rightarrow> real option" where
  "codeTempDiff rt row = map_option (\<lambda>(a, b). fsub rt a b) (tempPair (sensorData row))"

subsection \<open>Located temperature readings and the mean\<close>

text \<open>
  \<open>locatedTemps\<close> are the numbers of the first inlet-temperature reading and of the
  first outlet-temperature reading, when both carry a number; \<open>noZeroTemp\<close> says
  that neither of these two readings is the number zero. \<open>tempDiffs\<close> lists the
  runtime's difference inlet minus outlet over the rows that have both, in the order
  of the rows. \<open>runtimeMean\<close> is the mean as the runtime computes it: the numbers are
  added from 0 in the order of the list, one rounded addition each, and the sum is
  divided once by their count; it is 0 for the empty list. \<open>mean\<close> is the exact
  arithmetic mean.
\<close>

definition locatedTemps :: "SensorDataPoint list \<Rightarrow> (real \<times> real) option" where
  "locatedTemps rs =
     (case (find isInletTemp rs, find isOutletTemp rs) of
        (Some inlet, Some outlet) \<Rightarrow>
          (case (val inlet, val outlet) of
             (Num a, Num b) \<Rightarrow> Some (a, b)
           | _ \<Rightarrow> None)
      | _ \<Rightarrow> None)"

definition notZero :: "SensorDataPoint option \<Rightarrow> bool" where
  "notZero r = (case r of None \<Rightarrow> True | Some d \<Rightarrow> val d \<noteq> Num 0)"

definition noZeroTemp :: "SensorDataPoint list \<Rightarrow> bool" where
  "noZeroTemp rs = (notZero (find isInletTemp rs) \<and> notZero (find isOutletTemp rs))"

definition rowTempDiff :: "Runtime \<Rightarrow> DeviceRowData \<Rightarrow> real option" where
  "rowTempDiff rt row = map_option (\<lambda>(a, b). fsub rt a b) (locatedTemps (sensorData row))"

definition tempDiffs :: "Runtime \<Rightarrow> DeviceRowData list \<Rightarrow> real list" where
  "tempDiffs rt rows = List.map_filter (rowTempDiff rt) rows"

definition runtimeMean :: "Runtime \<Rightarrow> real list \<Rightarrow> real" where
  "runtimeMean rt xs =
     (if length xs > 0 then fdiv rt (foldl (fadd rt) 0 xs) (real (length xs)) else 0)"

definition mean :: "real list \<Rightarrow> real" where
  "mean xs = (if length xs > 0 then sum_list xs / real (length xs) else 0)"

subsection \<open>The wording of the specification\<close>

text \<open>
  Three definitions follow the words of the specification, not the code, and are
  compared with the code below. \<open>spec_avgTempDifferential\<close> is the mean of inlet
  minus outlet over the devices whose snapshot contains a numeric inlet-temperature
  reading and a numeric outlet-temperature reading. \<open>spec_isMonitoredDevice\<close> is the
  one identification predicate: the type identifier equals \<open>STEAM_TRAP3\<close>, or the
  type identifier or the type name contains \<open>steamtrap\<close> or \<open>steam\<close>.
\<close>

definition spec_numericReading ::
  "(SensorDataPoint \<Rightarrow> bool) \<Rightarrow> SensorDataPoint list \<Rightarrow> SensorDataPoint option" where
  "spec_numericReading P rs = find (\<lambda>d. P d \<and> isNumber (val d)) rs"

definition spec_tempDiff :: "DeviceRowData \<Rightarrow> real option" where
  "spec_tempDiff row =
     (case (spec_numericReading isInletTemp (sensorData row),
            spec_numericReading isOutletTemp (sensorData row)) of
        (Some inlet, Some outlet) \<Rightarrow> Some (numberOf (val inlet) - numberOf (val outlet))
      | _ \<Rightarrow> None)"

definition spec_avgTempDifferential :: "DeviceRowData list \<Rightarrow> real" where
  "spec_avgTempDifferential rows = mean (List.map_filter spec_tempDiff rows)"

definition spec_isMonitoredDevice :: "string option \<Rightarrow> string option \<Rightarrow> bool" where
  "spec_isMonitoredDevice typeId typeName =
     (typeId = Some ''STEAM_TRAP3'' \<or>
      lowerIncludes typeId ''steamtrap'' \<or> lowerIncludes typeId ''steam'' \<or>
      lowerIncludes typeName ''steamtrap'' \<or> lowerIncludes typeName ''steam'')"

subsection \<open>The second filter on a device\<close>

text \<open>
  \<open>finePasses\<close>: the metadata of the device was retrieved and passes \<open>fineFilter\<close>.
\<close>

definition finePasses :: "(string \<Rightarrow> DeviceMetadata option) \<Rightarrow> DeviceDetail \<Rightarrow> bool" where
  "finePasses getDeviceMetaData d =
     (case getDeviceMetaData (devID d) of None \<Rightarrow> False | Some m \<Rightarrow> fineFilter m)"

subsection \<open>Formatting\<close>

text \<open>
  \<open>toFixed1\<close> is \<open>x.toFixed(1)\<close> for a number below \<open>10^21\<close> in magnitude: the
  nearest multiple of one tenth, a tie going to the larger magnitude. It instantiates
  the formatting parameter of \<open>calculateKPIs\<close> at concrete fleets.
\<close>

definition toFixed1 :: "real \<Rightarrow> string" where
  "toFixed1 x =
     (let m = nat \<lfloor>\<bar>x\<bar> * 10 + 1 / 2\<rfloor>
      in (if x < 0 then ''-'' else []) @ natDigits (m div 10) @ ''.'' @ natDigits (m mod 10))"

subsection \<open>Concrete readings, rows and fleets\<close>

text \<open>
  \<open>exactRuntime\<close> is the runtime on numbers where the double operations are exact:
  integers of small magnitude, whose text is their decimal text, with differences,
  sums and quotients that are again such integers. It instantiates the runtime
  parameter at concrete readings of this kind only. \<open>reading\<close> builds a reading from
  its label and value, \<open>mkRow\<close> the row of a device from its readings, fetched
  without error.
\<close>

definition exactRuntime :: Runtime where
  "exactRuntime =
     \<lparr>numToString = integerToString, fsub = (\<lambda>x y. x - y), fadd = (\<lambda>x y. x + y),
      fdiv = (\<lambda>x y. x / y), fmul = (\<lambda>x y. x * y)\<rparr>"

definition reading :: "string \<Rightarrow> jsvalue \<Rightarrow> SensorDataPoint" where
  "reading label v = \<lparr>time = Null, sensor = Some label, val = v\<rparr>"

definition mkRow :: "DeviceDetail \<Rightarrow> SensorDataPoint list \<Rightarrow> DeviceRowData" where
  "mkRow d rs =
     \<lparr>device = d, metadata = None, sensorData = rs, isLoading = False, error = None,
      lastUpdated = Some 0\<rparr>"

definition c1_normal_input :: "SensorDataPoint list" where
  "c1_normal_input = [reading ''Inlet Temp'' (Num 260), reading ''Outlet Temp'' (Num 50)]"

definition c1_input :: "SensorDataPoint list" where
  "c1_input =
     [reading ''Inlet Temp Unit'' (Str ''degC''), reading ''Inlet Temp'' (Num 100),
      reading ''Outlet Temp'' (Num 90)]"

definition c5_input :: "SensorDataPoint list" where
  "c5_input = [reading ''Inlet Temp'' (Num 150), reading ''Trap Status'' (Num 6)]"

definition c8_input :: "SensorDataPoint list" where
  "c8_input = [reading ''Inlet Temp'' (Num 150), reading ''Outlet Temp'' (Num 100)]"

definition c9_first :: "SensorDataPoint list" where
  "c9_first =
     [\<lparr>time = Num 1000, sensor = Some ''Trap Status'', val = Num 6\<rparr>,
      \<lparr>time = Num 1000, sensor = Some ''Inlet Temp'', val = Num 150\<rparr>]"

definition c9_second :: "SensorDataPoint list" where
  "c9_second =
     [\<lparr>time = Str ''2024-05-01T10:00:00Z'', sensor = Some ''Trap Status'', val = Num 6\<rparr>,
      \<lparr>time = Str ''2024-05-01T10:00:05Z'', sensor = Some ''Inlet Temp'', val = Num 150\<rparr>]"

definition c2_devices :: "DeviceDetail list" where
  "c2_devices =
     [\<lparr>devID = ''trap-1'', devTypeID = Some ''STEAM_TRAP3''\<rparr>,
      \<lparr>devID = ''trap-2'', devTypeID = Some ''STEAM_TRAP3''\<rparr>]"

definition c2_rows :: DeviceRows where
  "c2_rows =
     [(''trap-1'', mkRow (c2_devices ! 0) [reading ''status'' (Num 6)]),
      (''trap-2'', mkRow (c2_devices ! 1) [])]"

definition c3_devices :: "DeviceDetail list" where
  "c3_devices =
     [\<lparr>devID = ''trap-1'', devTypeID = Some ''STEAM_TRAP3''\<rparr>,
      \<lparr>devID = ''trap-2'', devTypeID = Some ''STEAM_TRAP3''\<rparr>]"

definition c3_rows :: DeviceRows where
  "c3_rows =
     [(''trap-1'', mkRow (c3_devices ! 0) [reading ''Trap Status'' (Num 9)]),
      (''trap-2'', mkRow (c3_devices ! 1) [])]"

definition c7_devices :: "DeviceDetail list" where
  "c7_devices =
     [\<lparr>devID = ''trap-1'', devTypeID = Some ''STEAM_TRAP3''\<rparr>,
      \<lparr>devID = ''trap-2'', devTypeID = Some ''STEAM_TRAP3''\<rparr>,
      \<lparr>devID = ''trap-3'', devTypeID = Some ''STEAM_TRAP3''\<rparr>]"

definition c7_rows :: DeviceRows where
  "c7_rows =
     [(''trap-1'', mkRow (c7_devices ! 0) [reading ''status'' (Num 9)]),
      (''trap-2'', mkRow (c7_devices ! 1) [reading ''status'' (Num 6)]),
      (''trap-3'', mkRow (c7_devices ! 2) [reading ''status'' (Num 1)])]"

definition c6_devices :: "DeviceDetail list" where
  "c6_devices = [\<lparr>devID = ''trap-1'', devTypeID = Some ''STEAM_TRAP3''\<rparr>]"

definition c6_rows :: DeviceRows where
  "c6_rows =
     [(''trap-1'', mkRow (c6_devices ! 0)
        [reading ''Inlet Temp'' (Str ''rt/a''), reading ''Inlet Temp'' (Num 120),
         reading ''Outlet Temp'' (Num 100)])]"

definition c6_good_rows :: DeviceRows where
  "c6_good_rows =
     [(''trap-1'', mkRow (c6_devices ! 0)
        [reading ''Inlet Temp'' (Num 120), reading ''Outlet Temp'' (Num 100)]),
      (''trap-2'', mkRow (c6_devices ! 0) []),
      (''trap-3'', mkRow (c6_devices ! 0)
        [reading ''Inlet Temp'' (Num 150), reading ''Outlet Temp'' Null]),
      (''trap-4'', mkRow (c6_devices ! 0)
        [reading ''Inlet Temp'' (Num 250), reading ''Outlet Temp'' (Num 120)])]"

definition c4_device :: DeviceDetail where
  "c4_device = \<lparr>devID = ''valve-7'', devTypeID = Some ''STEAM_VALVE''\<rparr>"

definition c4_metadata :: DeviceMetadata where
  "c4_metadata =
     \<lparr>meta_devID = ''valve-7'', devName = ''Valve 7'', meta_devTypeID = Some ''STEAM_VALVE'',
      devTypeName = Some ''Steam Valve''\<rparr>"

definition c4_trap :: DeviceDetail where
  "c4_trap = \<lparr>devID = ''trap-1'', devTypeID = Some ''STEAM_TRAP3''\<rparr>"

definition c4_trap_metadata :: DeviceMetadata where
  "c4_trap_metadata =
     \<lparr>meta_devID = ''trap-1'', devName = ''Trap 1'', meta_devTypeID = Some ''STEAM_TRAP3'',
      devTypeName = Some ''Steam Trap ADR''\<rparr>"

definition c4_getMetaData :: "string \<Rightarrow> DeviceMetadata option" where
  "c4_getMetaData deviceId =
     (if deviceId = ''valve-7'' then Some c4_metadata
      else if deviceId = ''trap-1'' then Some c4_trap_metadata
      else None)"

section \<open>Shared lemmas\<close>

lemmas str_eval = toLowerCase_def toLowerCaseChar_def lowerIncludes_def
lemmas label_eval = isStatusSensor_def isInletTemp_def isOutletTemp_def reading_def str_eval
lemmas parse_eval = parseInt_def isWhiteSpace_def digitVal_def

subsection \<open>The string operations\<close>

lemma startsWith_iff: "startsWith s p = (\<exists>q. s = p @ q)"
  by (induction s p rule: startsWith.induct) auto

lemma includes_str_iff: "includes_str s sub = (\<exists>p q. s = p @ sub @ q)"
proof (induction s)
  case Nil
  then show ?case by auto
next
  case (Cons c cs)
  show ?case
  proof
    assume "includes_str (c # cs) sub"
    then consider "startsWith (c # cs) sub" | "includes_str cs sub" by auto
    then show "\<exists>p q. c # cs = p @ sub @ q"
    proof cases
      case 1
      then obtain q where "c # cs = sub @ q" by (auto simp: startsWith_iff)
      then have "c # cs = [] @ sub @ q" by simp
      then show ?thesis by blast
    next
      case 2
      then obtain p q where "cs = p @ sub @ q" using Cons.IH by auto
      then have "c # cs = (c # p) @ sub @ q" by simp
      then show ?thesis by blast
    qed
  next
    assume "\<exists>p q. c # cs = p @ sub @ q"
    then obtain p q where pq: "c # cs = p @ sub @ q" by blast
    show "includes_str (c # cs) sub"
    proof (cases p)
      case Nil
      then have "startsWith (c # cs) sub" using pq by (auto simp: startsWith_iff)
      then show ?thesis by simp
    next
      case (Cons x xs)
      then have "cs = xs @ sub @ q" using pq by simp
      then have "includes_str cs sub" using Cons.IH by blast
      then show ?thesis by simp
    qed
  qed
qed

lemma parseInt_examples:
  "parseInt ''9'' = Some 9" "parseInt ''  6 '' = Some 6" "parseInt ''9.5'' = Some 9"
  "parseInt ''-3'' = Some (- 3)" "parseInt ''0x9'' = Some 9" "parseInt ''1e+21'' = Some 1"
  "parseInt ''Normal'' = None" "parseInt [] = None" "parseInt ''+-5'' = None"
  by (simp_all add: parse_eval)

lemma toLowerCase_examples:
  "toLowerCase ''Trap STATUS'' = ''trap status''" "toLowerCase ''Inlet_Temp-2'' = ''inlet_temp-2''"
  by (simp_all add: str_eval)

subsection \<open>The table and the classifier\<close>

lemma find_SomeD: "find P xs = Some x \<Longrightarrow> x \<in> set xs \<and> P x"
  by (induction xs) (auto split: if_splits)

lemma statusMapping_keys:
  "map (\<lambda>e. (fst e, code (snd e))) statusMapping =
     [(''Normal'', 1), (''Heavy Flooding'', 3), (''Choking'', 6), (''Heavy Leak'', 9), (''Valve Closed'', 5)]"
  by (simp add: statusMapping_def)

lemma statusMapping_pair:
  assumes "e \<in> set statusMapping"
  shows "(fst e, code (snd e)) \<in> set statusTable"
proof -
  have "(fst e, code (snd e)) \<in> set (map (\<lambda>e. (fst e, code (snd e))) statusMapping)"
    using assms by (simp only: set_map image_eqI)
  then show ?thesis
    unfolding statusMapping_keys statusTable_def by auto
qed

lemma distinct_snd_unique:
  "distinct (map snd xs) \<Longrightarrow> (a, c) \<in> set xs \<Longrightarrow> (b, c) \<in> set xs \<Longrightarrow> b = a"
  by (induction xs) (auto simp: image_iff)

lemma statusTable_code_unique:
  "(name, c) \<in> set statusTable \<Longrightarrow> (name', c) \<in> set statusTable \<Longrightarrow> name' = name"
  by (rule distinct_snd_unique[of statusTable]) (simp_all add: statusTable_def)

lemma status_mkStatus [simp]: "status (mkStatus e) = fst e" "statusCode (mkStatus e) = code (snd e)"
  by (simp_all add: mkStatus_def)

lemma statusLookup_mem: "statusLookup rt rs = Some e \<Longrightarrow> e \<in> set statusMapping"
  unfolding statusLookup_def matchCode_def matchName_def
  by (auto split: option.splits if_splits simp: Let_def dest: find_SomeD)

lemma heuristic_Normal:
  "status (heuristicStatus ''Normal'' 1 goodDifferential) = ''Normal''"
  "statusCode (heuristicStatus ''Normal'' 1 goodDifferential) = 1"
  by (simp_all add: heuristicStatus_def goodDifferential_def split: option.splits)

lemma heuristic_Flooding:
  "status (heuristicStatus ''Heavy Flooding'' 3 lowDifferential) = ''Heavy Flooding''"
  "statusCode (heuristicStatus ''Heavy Flooding'' 3 lowDifferential) = 3"
  by (simp_all add: heuristicStatus_def lowDifferential_def split: option.splits)

lemma status_default: "status defaultStatus = ''Normal''" "statusCode defaultStatus = 1"
  by (simp_all add: defaultStatus_def)

lemma getTrapStatus_in_table:
  "(status (getTrapStatus rt rs), statusCode (getTrapStatus rt rs)) \<in> set statusTable"
proof (cases "statusLookup rt rs")
  case (Some e)
  then show ?thesis
    using statusMapping_pair[OF statusLookup_mem[OF Some]] by (simp add: getTrapStatus_def)
next
  case None
  show ?thesis
  proof (cases "tempPair rs")
    case no: None
    then show ?thesis using None by (simp add: getTrapStatus_def status_default statusTable_def)
  next
    case (Some p)
    obtain a b where p: "p = (a, b)" by (cases p)
    show ?thesis using None Some p
      by (simp add: getTrapStatus_def Let_def heuristic_Normal heuristic_Flooding status_default statusTable_def)
  qed
qed

lemma getTrapStatus_code: "statusCode (getTrapStatus rt rs) \<in> {1, 3, 5, 6, 9}"
  using getTrapStatus_in_table[of rt rs] by (auto simp: statusTable_def)

section \<open>The classifier returns an entry of the table\<close>

text \<open>
  Claim C10. For every reading list, the status that \<open>getTrapStatus\<close> returns carries
  a code among 1, 3, 5, 6 and 9, with the name the five-entry table gives that code.
  The code therefore matches one of the \<open>case\<close> labels of the aggregator's switch,
  and the \<open>default\<close> branch of \<open>countStatus\<close>, which counts any other code as a
  warning, is never taken for a classified device.
\<close>

theorem classify_code_in_table:
  "(status (getTrapStatus rt rs), statusCode (getTrapStatus rt rs)) \<in> set statusTable \<and>
   (statusCode (getTrapStatus rt rs) = 1 \<or>
    (statusCode (getTrapStatus rt rs) = 3 \<or> statusCode (getTrapStatus rt rs) = 5) \<or>
    (statusCode (getTrapStatus rt rs) = 6 \<or> statusCode (getTrapStatus rt rs) = 9))"
  using getTrapStatus_in_table[of rt rs] getTrapStatus_code[of rt rs] by auto

section \<open>Rule 1: a known status code\<close>

lemma matchCode_SomeD:
  "matchCode p = Some e \<Longrightarrow> p = Some (code (snd e)) \<and> e \<in> set statusMapping"
  unfolding matchCode_def by (auto dest: find_SomeD)

lemma matchCode_known:
  assumes "(name, c) \<in> set statusTable"
  shows "\<exists>e. matchCode (Some c) = Some e"
proof -
  have "c \<in> snd ` set (map (\<lambda>e. (fst e, code (snd e))) statusMapping)"
    using assms unfolding statusMapping_keys statusTable_def by auto
  then obtain e where "e \<in> set statusMapping" "code (snd e) = c"
    by auto
  then have "\<exists>x \<in> set statusMapping. Some (code (snd x)) = Some c"
    by blast
  then have "find (\<lambda>e. Some (code (snd e)) = Some c) statusMapping \<noteq> None"
    unfolding find_None_iff by blast
  then show ?thesis by (auto simp: matchCode_def)
qed

lemma statusLookup_code:
  assumes "find isStatusSensor rs = Some d" "val d \<noteq> Null"
    and "parseInt (String_of rt (val d)) = Some c" "(name, c) \<in> set statusTable"
  shows "status (getTrapStatus rt rs) = name \<and> statusCode (getTrapStatus rt rs) = c"
proof -
  obtain e where e: "matchCode (Some c) = Some e"
    using matchCode_known[OF assms(4)] by blast
  have look: "statusLookup rt rs = Some e"
    using assms(1-3) e by (simp add: statusLookup_def Let_def)
  have c: "code (snd e) = c" and mem: "e \<in> set statusMapping"
    using matchCode_SomeD[OF e] by auto
  have "fst e = name"
    using statusMapping_pair[OF mem] assms(4) c statusTable_code_unique by blast
  then show ?thesis using look c by (simp add: getTrapStatus_def)
qed

lemma healthTable_statusTable: "(name, c, t) \<in> set healthTable \<Longrightarrow> (name, c) \<in> set statusTable"
  by (auto simp: healthTable_def statusTable_def)

lemma countStatus_unit:
  "acc_statusCounts (countStatus 1 initAcc) = unitCounts ''normal''"
  "acc_statusCounts (countStatus 3 initAcc) = unitCounts ''warning''"
  "acc_statusCounts (countStatus 5 initAcc) = unitCounts ''warning''"
  "acc_statusCounts (countStatus 6 initAcc) = unitCounts ''critical''"
  "acc_statusCounts (countStatus 9 initAcc) = unitCounts ''critical''"
  by (simp_all add: countStatus_def initAcc_def unitCounts_def)

lemma filterSwitch_tier:
  "filterSwitch ''normal'' st = (statusCode st = 1)"
  "filterSwitch ''warning'' st = (statusCode st = 3 \<or> statusCode st = 5)"
  "filterSwitch ''critical'' st = (statusCode st = 6 \<or> statusCode st = 9)"
  "filterSwitch ''offline'' st = False"
  by (simp_all add: filterSwitch_def)

lemma inTier_of_code:
  assumes "(name, c, t) \<in> set healthTable" "statusCode st = c"
  shows "inTier t st"
proof -
  have "(c = 1 \<and> t = ''normal'') \<or> (c = 3 \<and> t = ''warning'') \<or> (c = 5 \<and> t = ''warning'') \<or>
        (c = 6 \<and> t = ''critical'') \<or> (c = 9 \<and> t = ''critical'')"
    using assms(1) unfolding healthTable_def by auto
  then show ?thesis
    using assms(2) by (elim disjE conjE) (simp_all add: inTier_def countStatus_unit filterSwitch_tier)
qed

lemma parseInt_digit: "parseInt ''1'' = Some 1" "parseInt ''9'' = Some 9"
  by (simp_all add: parse_eval)

lemma parseInt_six: "parseInt ''6'' = Some 6"
  by (simp add: parse_eval)

lemma find_status_single: "find isStatusSensor [reading ''status'' v] = Some (reading ''status'' v)"
  by (simp add: label_eval)

text \<open>
  Claim C5. When the first reading whose label contains \<open>status\<close>, \<open>condition\<close> or
  \<open>trap\<close> has a value, not null, whose text \<open>parseInt\<close> reads as a code of the
  table, \<open>getTrapStatus\<close> returns the status of that code: its name, its code, and
  the tier in which the filter and the aggregator put it. In particular the reading
  set with the single reading \<open>status = 1\<close> is Normal, code 1, tier normal, where the
  text of the number 1 is \<open>1\<close>.
\<close>

theorem classify_known_code:
  "(find isStatusSensor rs = Some d \<and> val d \<noteq> Null \<and>
    parseInt (String_of rt (val d)) = Some c \<and> (name, c, t) \<in> set healthTable \<longrightarrow>
      status (getTrapStatus rt rs) = name \<and> statusCode (getTrapStatus rt rs) = c \<and>
      inTier t (getTrapStatus rt rs)) \<and>
   (numToString rt 1 = ''1'' \<longrightarrow>
      status (getTrapStatus rt [reading ''status'' (Num 1)]) = ''Normal'' \<and>
      statusCode (getTrapStatus rt [reading ''status'' (Num 1)]) = 1 \<and>
      inTier ''normal'' (getTrapStatus rt [reading ''status'' (Num 1)]))"
proof (intro conjI impI)
  assume h: "find isStatusSensor rs = Some d \<and> val d \<noteq> Null \<and>
    parseInt (String_of rt (val d)) = Some c \<and> (name, c, t) \<in> set healthTable"
  then have sc: "status (getTrapStatus rt rs) = name \<and> statusCode (getTrapStatus rt rs) = c"
    by (intro statusLookup_code[of rs d rt c name] healthTable_statusTable[of name c t]) simp_all
  then show "status (getTrapStatus rt rs) = name" "statusCode (getTrapStatus rt rs) = c"
    by simp_all
  show "inTier t (getTrapStatus rt rs)"
    by (rule inTier_of_code[of name c t]) (simp_all add: h sc)
next
  assume one: "numToString rt 1 = ''1''"
  have tab: "(''Normal'', 1, ''normal'') \<in> set healthTable"
    by (simp add: healthTable_def)
  have p: "parseInt (String_of rt (val (reading ''status'' (Num 1)))) = Some 1"
    using one by (simp add: String_of_def reading_def parseInt_digit)
  have v: "val (reading ''status'' (Num 1)) \<noteq> Null"
    by (simp add: reading_def)
  have sc: "status (getTrapStatus rt [reading ''status'' (Num 1)]) = ''Normal'' \<and>
      statusCode (getTrapStatus rt [reading ''status'' (Num 1)]) = 1"
    using statusLookup_code[OF find_status_single v p healthTable_statusTable[OF tab]] .
  then show "status (getTrapStatus rt [reading ''status'' (Num 1)]) = ''Normal''"
    "statusCode (getTrapStatus rt [reading ''status'' (Num 1)]) = 1"
    by simp_all
  show "inTier ''normal'' (getTrapStatus rt [reading ''status'' (Num 1)])"
    by (rule inTier_of_code[OF tab]) (simp add: sc)
qed

lemma integerToString_digit:
  "numToString exactRuntime 1 = ''1''" "numToString exactRuntime 9 = ''9''"
  "numToString exactRuntime 6 = ''6''"
  by (simp_all add: exactRuntime_def integerToString_def)

theorem classify_known_code_witness:
  "find isStatusSensor c5_input = Some (reading ''Trap Status'' (Num 6)) \<and>
   val (reading ''Trap Status'' (Num 6)) \<noteq> Null \<and>
   parseInt (String_of exactRuntime (val (reading ''Trap Status'' (Num 6)))) = Some 6 \<and>
   (''Choking'', 6, ''critical'') \<in> set healthTable \<and>
   numToString exactRuntime 1 = ''1'' \<and>
   status (getTrapStatus exactRuntime c5_input) = ''Choking'' \<and>
   statusCode (getTrapStatus exactRuntime c5_input) = 6 \<and>
   inTier ''critical'' (getTrapStatus exactRuntime c5_input) \<and>
   status (getTrapStatus exactRuntime [reading ''status'' (Num 1)]) = ''Normal''"
proof -
  have a: "find isStatusSensor c5_input = Some (reading ''Trap Status'' (Num 6))"
    by (simp add: c5_input_def label_eval)
  have b: "val (reading ''Trap Status'' (Num 6)) \<noteq> Null"
    by (simp add: reading_def)
  have c: "parseInt (String_of exactRuntime (val (reading ''Trap Status'' (Num 6)))) = Some 6"
    by (simp add: reading_def String_of_def integerToString_digit parse_eval)
  have d: "(''Choking'', 6, ''critical'') \<in> set healthTable"
    by (simp add: healthTable_def)
  show ?thesis
    using classify_known_code[of c5_input "reading ''Trap Status'' (Num 6)" exactRuntime 6
        "''Choking''" "''critical''"] a b c d integerToString_digit(1)
    by simp
qed

section \<open>The cascade always ends: the default\<close>

lemma find_no_status:
  "find isStatusSensor [reading ''Inlet Temp'' a, reading ''Outlet Temp'' b] = None"
  by (simp add: label_eval)

lemma statusLookup_no_sensor: "find isStatusSensor rs = None \<Longrightarrow> statusLookup rt rs = None"
  by (simp add: statusLookup_def)

lemma tempPair_c8: "tempPair c8_input = Some (150, 100)"
  by (simp add: c8_input_def tempPair_def label_eval truthy_def isNumber_def numberOf_def)

lemma getTrapStatus_default:
  assumes "statusLookup rt rs = None"
    and "\<forall>a b. tempPair rs = Some (a, b) \<longrightarrow> \<not> fsub rt a b > 100 \<and> \<not> fsub rt a b < 20"
  shows "getTrapStatus rt rs = defaultStatus"
proof (cases "tempPair rs")
  case None
  then show ?thesis using assms(1) by (simp add: getTrapStatus_def)
next
  case (Some p)
  obtain a b where p: "p = (a, b)" by (cases p)
  then have "\<not> fsub rt a b > 100 \<and> \<not> fsub rt a b < 20" using assms(2) Some by simp
  then show ?thesis using assms(1) Some p by (simp add: getTrapStatus_def Let_def)
qed

lemma getTrapStatus_default_exact:
  assumes "\<forall>a b. 20 \<le> a - b \<longrightarrow> 20 \<le> fsub rt a b"
    and "\<forall>a b. a - b \<le> 100 \<longrightarrow> fsub rt a b \<le> 100"
    and "statusLookup rt rs = None"
    and "\<forall>a b. tempPair rs = Some (a, b) \<longrightarrow> \<not> a - b > 100 \<and> \<not> a - b < 20"
  shows "getTrapStatus rt rs = defaultStatus"
proof (rule getTrapStatus_default[OF assms(3)], intro allI impI)
  fix a b
  assume "tempPair rs = Some (a, b)"
  then have "20 \<le> a - b" "a - b \<le> 100" using assms(4) by auto
  then have "20 \<le> fsub rt a b" "fsub rt a b \<le> 100" using assms(1,2) by auto
  then show "\<not> fsub rt a b > 100 \<and> \<not> fsub rt a b < 20" by simp
qed

lemma getTrapStatus_Nil: "getTrapStatus rt [] = defaultStatus"
  by (simp add: getTrapStatus_def statusLookup_def tempPair_def)

text \<open>
  Claim C8. \<open>getTrapStatus\<close> has no failing path: the source raises nowhere, and the
  model is a total function with no error value. For every reading list it returns a
  status of the table. When neither loop over the table matches
  (\<open>statusLookup\<close> is \<open>None\<close>) and the temperature fallback returns nothing (the guard
  fails, or the difference the runtime computes is neither above 100 nor below 20),
  the result is the default, which is Normal with code 1. The same holds of the exact
  difference, for a runtime whose subtraction rounds an exact difference of at least
  20 to at least 20 and one of at most 100 to at most 100, as rounding to the nearest
  double does. The empty reading list is such a list.
\<close>

theorem classify_total_default:
  "(\<exists>st. getTrapStatus rt rs = st \<and> (status st, statusCode st) \<in> set statusTable) \<and>
   (statusLookup rt rs = None \<and>
    (\<forall>a b. tempPair rs = Some (a, b) \<longrightarrow> \<not> fsub rt a b > 100 \<and> \<not> fsub rt a b < 20) \<longrightarrow>
      getTrapStatus rt rs = defaultStatus) \<and>
   ((\<forall>a b. 20 \<le> a - b \<longrightarrow> 20 \<le> fsub rt a b) \<and>
    (\<forall>a b. a - b \<le> 100 \<longrightarrow> fsub rt a b \<le> 100) \<and>
    statusLookup rt rs = None \<and>
    (\<forall>a b. tempPair rs = Some (a, b) \<longrightarrow> \<not> a - b > 100 \<and> \<not> a - b < 20) \<longrightarrow>
      getTrapStatus rt rs = defaultStatus) \<and>
   getTrapStatus rt [] = defaultStatus \<and>
   status defaultStatus = ''Normal'' \<and> statusCode defaultStatus = 1"
proof (intro conjI impI)
  show "\<exists>st. getTrapStatus rt rs = st \<and> (status st, statusCode st) \<in> set statusTable"
    using getTrapStatus_in_table[of rt rs] by simp
  show "getTrapStatus rt [] = defaultStatus"
    by (rule getTrapStatus_Nil)
  show "status defaultStatus = ''Normal''" "statusCode defaultStatus = 1"
    by (rule status_default)+
next
  assume "statusLookup rt rs = None \<and>
    (\<forall>a b. tempPair rs = Some (a, b) \<longrightarrow> \<not> fsub rt a b > 100 \<and> \<not> fsub rt a b < 20)"
  then show "getTrapStatus rt rs = defaultStatus"
    using getTrapStatus_default[of rt rs] by blast
next
  assume "(\<forall>a b. 20 \<le> a - b \<longrightarrow> 20 \<le> fsub rt a b) \<and>
    (\<forall>a b. a - b \<le> 100 \<longrightarrow> fsub rt a b \<le> 100) \<and>
    statusLookup rt rs = None \<and>
    (\<forall>a b. tempPair rs = Some (a, b) \<longrightarrow> \<not> a - b > 100 \<and> \<not> a - b < 20)"
  then show "getTrapStatus rt rs = defaultStatus"
    using getTrapStatus_default_exact[of rt rs] by blast
qed

theorem classify_total_default_witness:
  "statusLookup exactRuntime c8_input = None \<and>
   tempPair c8_input = Some (150, 100) \<and>
   fsub exactRuntime 150 100 = 50 \<and>
   getTrapStatus exactRuntime c8_input = defaultStatus \<and>
   getTrapStatus exactRuntime [] = defaultStatus"
proof -
  have a: "statusLookup exactRuntime c8_input = None"
    unfolding c8_input_def by (rule statusLookup_no_sensor[OF find_no_status])
  have sub: "fsub exactRuntime 150 100 = 50"
    by (simp add: exactRuntime_def)
  have b: "\<forall>a b. tempPair c8_input = Some (a, b) \<longrightarrow> \<not> a - b > 100 \<and> \<not> a - b < 20"
    by (simp add: tempPair_c8)
  have c: "\<forall>a b. tempPair c8_input = Some (a, b) \<longrightarrow>
      \<not> fsub exactRuntime a b > 100 \<and> \<not> fsub exactRuntime a b < 20"
    by (simp add: tempPair_c8 exactRuntime_def)
  have r: "\<forall>a b. 20 \<le> a - b \<longrightarrow> 20 \<le> fsub exactRuntime a b"
    "\<forall>a b. a - b \<le> 100 \<longrightarrow> fsub exactRuntime a b \<le> 100"
    by (simp_all add: exactRuntime_def)
  have "getTrapStatus exactRuntime c8_input = defaultStatus \<and>
      getTrapStatus exactRuntime [] = defaultStatus"
    using classify_total_default[of exactRuntime c8_input] a b c r by blast
  then show ?thesis
    using a sub tempPair_c8 by simp
qed

section \<open>Determinism\<close>

subsection \<open>The classifier reads labels and values only\<close>

lemma find_labelValue:
  assumes "map labelValue rs1 = map labelValue rs2"
    and "\<And>d d'. labelValue d = labelValue d' \<Longrightarrow> P d = P d'"
  shows "map_option labelValue (find P rs1) = map_option labelValue (find P rs2)"
  using assms(1)
proof (induction rs1 arbitrary: rs2)
  case Nil
  then show ?case by simp
next
  case (Cons d rs1)
  then obtain d' rs2' where rs2: "rs2 = d' # rs2'" "labelValue d = labelValue d'"
    "map labelValue rs1 = map labelValue rs2'"
    by (cases rs2) auto
  then show ?case using Cons.IH[of rs2'] assms(2)[of d d'] by simp
qed

lemma label_predicates:
  assumes "labelValue d = labelValue d'"
  shows "isStatusSensor d = isStatusSensor d'" "isInletTemp d = isInletTemp d'"
    "isOutletTemp d = isOutletTemp d'" "val d = val d'"
  using assms by (simp_all add: labelValue_def isStatusSensor_def isInletTemp_def isOutletTemp_def)

lemma map_option_labelValue:
  assumes "map_option labelValue x = map_option labelValue y"
  shows "map_option val x = map_option val y"
  using assms by (cases x; cases y) (simp_all add: labelValue_def)

lemma statusLookup_val:
  "statusLookup rt rs =
     (case map_option val (find isStatusSensor rs) of
        None \<Rightarrow> None
      | Some v \<Rightarrow>
          if v = Null then None
          else (case matchCode (parseInt (String_of rt v)) of
                  Some e \<Rightarrow> Some e
                | None \<Rightarrow> matchName (String_of rt v)))"
  by (simp add: statusLookup_def Let_def split: option.splits)

lemma tempPair_val:
  "tempPair rs =
     (case (map_option val (find isInletTemp rs), map_option val (find isOutletTemp rs)) of
        (Some a, Some b) \<Rightarrow>
          if truthy a \<and> truthy b \<and> isNumber a \<and> isNumber b
          then Some (numberOf a, numberOf b) else None
      | _ \<Rightarrow> None)"
  by (simp add: tempPair_def split: option.splits)

lemma getTrapStatus_ignores_time:
  assumes "map labelValue rs1 = map labelValue rs2"
  shows "getTrapStatus rt rs1 = getTrapStatus rt rs2"
proof -
  have s: "map_option val (find isStatusSensor rs1) = map_option val (find isStatusSensor rs2)"
    by (rule map_option_labelValue[OF find_labelValue[OF assms label_predicates(1)]])
  have i: "map_option val (find isInletTemp rs1) = map_option val (find isInletTemp rs2)"
    by (rule map_option_labelValue[OF find_labelValue[OF assms label_predicates(2)]])
  have out: "map_option val (find isOutletTemp rs1) = map_option val (find isOutletTemp rs2)"
    by (rule map_option_labelValue[OF find_labelValue[OF assms label_predicates(3)]])
  have look: "statusLookup rt rs1 = statusLookup rt rs2"
    unfolding statusLookup_val s ..
  have pair: "tempPair rs1 = tempPair rs2"
    unfolding tempPair_val i out ..
  show ?thesis unfolding getTrapStatus_def look pair ..
qed

text \<open>
  Claim C9. \<open>getTrapStatus\<close> keeps no state between calls and reads of its argument
  only the labels and the values, in their order: two calls on reading lists with the
  same labels and values return the same status, in name, code, tier and every other
  field, whatever the observation times of the readings. Two calls on identical
  reading lists are the case where the times agree as well.
\<close>

theorem classify_deterministic:
  "map labelValue rs1 = map labelValue rs2 \<Longrightarrow>
     getTrapStatus rt rs1 = getTrapStatus rt rs2 \<and>
     status (getTrapStatus rt rs1) = status (getTrapStatus rt rs2) \<and>
     statusCode (getTrapStatus rt rs1) = statusCode (getTrapStatus rt rs2) \<and>
     (\<forall>t. inTier t (getTrapStatus rt rs1) = inTier t (getTrapStatus rt rs2))"
  using getTrapStatus_ignores_time[of rs1 rs2 rt] by simp

theorem classify_deterministic_witness:
  "map labelValue c9_first = map labelValue c9_second \<and>
   c9_first \<noteq> c9_second \<and>
   getTrapStatus exactRuntime c9_first = getTrapStatus exactRuntime c9_second \<and>
   status (getTrapStatus exactRuntime c9_second) = ''Choking''"
proof -
  have same: "map labelValue c9_first = map labelValue c9_second"
    by (simp add: c9_first_def c9_second_def labelValue_def)
  have differ: "c9_first \<noteq> c9_second"
    by (simp add: c9_first_def c9_second_def)
  have found: "find isStatusSensor c9_second = Some (c9_second ! 0)"
    by (simp add: c9_second_def isStatusSensor_def str_eval)
  have "status (getTrapStatus exactRuntime c9_second) = ''Choking'' \<and>
      statusCode (getTrapStatus exactRuntime c9_second) = 6"
  proof (rule statusLookup_code[OF found])
    show "val (c9_second ! 0) \<noteq> Null"
      by (simp add: c9_second_def)
    show "parseInt (String_of exactRuntime (val (c9_second ! 0))) = Some 6"
      by (simp add: c9_second_def String_of_def integerToString_digit parseInt_six)
    show "(''Choking'', 6) \<in> set statusTable"
      by (simp add: statusTable_def)
  qed
  then show ?thesis
    using classify_deterministic[OF same, of exactRuntime] same differ by simp
qed

section \<open>Rule 3: the temperature fallback\<close>

lemma tempPair_located:
  assumes "find isInletTemp rs = Some inlet" "find isOutletTemp rs = Some outlet"
    and "val inlet = Num a" "val outlet = Num b" "a \<noteq> 0" "b \<noteq> 0"
  shows "tempPair rs = Some (a, b)"
  using assms by (simp add: tempPair_def truthy_def isNumber_def numberOf_def)

lemma find_None_all: "(\<forall>d \<in> set rs. \<not> P d) \<Longrightarrow> find P rs = None"
  by (simp add: find_None_iff)

lemma getTrapStatus_fallback:
  assumes "statusLookup rt rs = None" "tempPair rs = Some (a, b)"
  shows "fsub rt a b > 100 \<Longrightarrow>
           status (getTrapStatus rt rs) = ''Normal'' \<and> statusCode (getTrapStatus rt rs) = 1"
    and "fsub rt a b < 20 \<Longrightarrow>
           status (getTrapStatus rt rs) = ''Heavy Flooding'' \<and> statusCode (getTrapStatus rt rs) = 3"
    and "\<not> fsub rt a b < 20 \<Longrightarrow>
           status (getTrapStatus rt rs) = ''Normal'' \<and> statusCode (getTrapStatus rt rs) = 1"
  using assms
  by (simp_all add: getTrapStatus_def Let_def heuristic_Normal heuristic_Flooding status_default)

lemma tempPair_example:
  "tempPair [reading ''inlet temp'' (Num 100), reading ''outlet temp'' (Num 90)] = Some (100, 90)"
  by (simp add: tempPair_def label_eval truthy_def isNumber_def numberOf_def)

lemma find_no_status_example:
  "find isStatusSensor [reading ''inlet temp'' a, reading ''outlet temp'' b] = None"
  by (simp add: label_eval)

text \<open>
  Claim C1, as the code has it. \<open>find\<close> takes the first reading whose label contains
  \<open>inlet\<close> and \<open>temp\<close> and the first whose label contains \<open>outlet\<close> and \<open>temp\<close>, and
  the guard then looks at these two readings only; the thresholds are compared with
  the difference that the runtime computes in double arithmetic. For every reading
  list with no reading whose label contains \<open>status\<close>, \<open>condition\<close> or \<open>trap\<close>, in
  which these two first readings both carry a number other than zero: the result is
  Normal when the computed difference inlet minus outlet is greater than 100, and
  Heavy Flooding when the computed difference is less than 20. The result is also
  Normal when the exact difference is greater than 100, for a runtime whose
  subtraction rounds such a difference to at least 100, as rounding to the nearest
  double does. In particular the reading set \<open>inlet temp = 100\<close>,
  \<open>outlet temp = 90\<close> is Heavy Flooding, where the runtime computes \<open>100 - 90\<close> as 10.
\<close>

theorem classify_temperature_fallback:
  "((\<forall>d \<in> set rs. \<not> isStatusSensor d) \<and>
    find isInletTemp rs = Some inlet \<and> find isOutletTemp rs = Some outlet \<and>
    val inlet = Num a \<and> val outlet = Num b \<and> a \<noteq> 0 \<and> b \<noteq> 0 \<longrightarrow>
      (fsub rt a b > 100 \<longrightarrow>
         status (getTrapStatus rt rs) = ''Normal'' \<and> statusCode (getTrapStatus rt rs) = 1) \<and>
      (fsub rt a b < 20 \<longrightarrow>
         status (getTrapStatus rt rs) = ''Heavy Flooding'' \<and> statusCode (getTrapStatus rt rs) = 3) \<and>
      ((\<forall>x y. 100 < x - y \<longrightarrow> 100 \<le> fsub rt x y) \<and> a - b > 100 \<longrightarrow>
         status (getTrapStatus rt rs) = ''Normal'' \<and> statusCode (getTrapStatus rt rs) = 1)) \<and>
   (fsub rt 100 90 = 10 \<longrightarrow>
      status (getTrapStatus rt [reading ''inlet temp'' (Num 100), reading ''outlet temp'' (Num 90)]) =
        ''Heavy Flooding'')"
proof (intro conjI impI)
  assume h: "(\<forall>d \<in> set rs. \<not> isStatusSensor d) \<and>
    find isInletTemp rs = Some inlet \<and> find isOutletTemp rs = Some outlet \<and>
    val inlet = Num a \<and> val outlet = Num b \<and> a \<noteq> 0 \<and> b \<noteq> 0"
  then have look: "statusLookup rt rs = None"
    by (intro statusLookup_no_sensor find_None_all) simp
  have pair: "tempPair rs = Some (a, b)"
    using h by (intro tempPair_located[of rs inlet outlet]) simp_all
  {
    assume "fsub rt a b > 100"
    then show "status (getTrapStatus rt rs) = ''Normal''" "statusCode (getTrapStatus rt rs) = 1"
      using getTrapStatus_fallback(1)[OF look pair] by simp_all
  }
  {
    assume "fsub rt a b < 20"
    then show "status (getTrapStatus rt rs) = ''Heavy Flooding''" "statusCode (getTrapStatus rt rs) = 3"
      using getTrapStatus_fallback(2)[OF look pair] by simp_all
  }
  {
    assume "(\<forall>x y. 100 < x - y \<longrightarrow> 100 \<le> fsub rt x y) \<and> a - b > 100"
    then have "100 \<le> fsub rt a b" by simp
    then have "\<not> fsub rt a b < 20" by simp
    then show "status (getTrapStatus rt rs) = ''Normal''" "statusCode (getTrapStatus rt rs) = 1"
      using getTrapStatus_fallback(3)[OF look pair] by simp_all
  }
next
  assume "fsub rt 100 90 = 10"
  then have "fsub rt 100 90 < 20" by simp
  then show "status (getTrapStatus rt [reading ''inlet temp'' (Num 100), reading ''outlet temp'' (Num 90)]) =
     ''Heavy Flooding''"
    using getTrapStatus_fallback(2)[OF statusLookup_no_sensor[OF find_no_status_example] tempPair_example, of rt]
    by simp
qed

text \<open>
  When the runtime computes a difference of exactly 20, as double subtraction does for
  some readings whose exact difference is a little below 20, neither threshold is
  met and the result is the default.
\<close>

lemma computed_twenty_is_default:
  assumes "statusLookup rt rs = None" "tempPair rs = Some (a, b)" "fsub rt a b = 20"
  shows "getTrapStatus rt rs = defaultStatus"
  using assms by (simp add: getTrapStatus_def Let_def)

theorem classify_temperature_fallback_witness:
  "find isStatusSensor c1_normal_input = None \<and>
   find isInletTemp c1_normal_input = Some (reading ''Inlet Temp'' (Num 260)) \<and>
   find isOutletTemp c1_normal_input = Some (reading ''Outlet Temp'' (Num 50)) \<and>
   val (reading ''Inlet Temp'' (Num 260)) = Num 260 \<and>
   val (reading ''Outlet Temp'' (Num 50)) = Num 50 \<and>
   (260 :: real) \<noteq> 0 \<and> (50 :: real) \<noteq> 0 \<and> fsub exactRuntime 260 50 > 100 \<and>
   status (getTrapStatus exactRuntime c1_normal_input) = ''Normal'' \<and>
   statusCode (getTrapStatus exactRuntime c1_normal_input) = 1 \<and>
   fsub exactRuntime 100 90 = 10 \<and>
   status (getTrapStatus exactRuntime
     [reading ''inlet temp'' (Num 100), reading ''outlet temp'' (Num 90)]) = ''Heavy Flooding''"
proof -
  have a: "\<forall>d \<in> set c1_normal_input. \<not> isStatusSensor d"
    by (simp add: c1_normal_input_def label_eval)
  have b: "find isInletTemp c1_normal_input = Some (reading ''Inlet Temp'' (Num 260))"
    by (simp add: c1_normal_input_def label_eval)
  have c: "find isOutletTemp c1_normal_input = Some (reading ''Outlet Temp'' (Num 50))"
    by (simp add: c1_normal_input_def label_eval)
  have d: "val (reading ''Inlet Temp'' (Num 260)) = Num 260"
    "val (reading ''Outlet Temp'' (Num 50)) = Num 50"
    by (simp_all add: reading_def)
  have e: "(260 :: real) \<noteq> 0" "(50 :: real) \<noteq> 0" "fsub exactRuntime 260 50 > 100"
    by (simp_all add: exactRuntime_def)
  have "status (getTrapStatus exactRuntime c1_normal_input) = ''Normal'' \<and>
        statusCode (getTrapStatus exactRuntime c1_normal_input) = 1"
    using classify_temperature_fallback[of c1_normal_input "reading ''Inlet Temp'' (Num 260)"
        "reading ''Outlet Temp'' (Num 50)" 260 50 exactRuntime] a b c d e
    by blast
  moreover have "find isStatusSensor c1_normal_input = None"
    using a by (simp add: find_None_iff)
  moreover have ten: "fsub exactRuntime 100 90 = 10"
    by (simp add: exactRuntime_def)
  moreover have "status (getTrapStatus exactRuntime
     [reading ''inlet temp'' (Num 100), reading ''outlet temp'' (Num 90)]) = ''Heavy Flooding''"
    using classify_temperature_fallback[of c1_normal_input "reading ''Inlet Temp'' (Num 260)"
        "reading ''Outlet Temp'' (Num 50)" 260 50 exactRuntime, THEN conjunct2] ten
    by blast
  ultimately show ?thesis using b c d e by blast
qed

text \<open>
  A later numeric reading does not count. The first reading below whose label
  contains \<open>inlet\<close> and \<open>temp\<close> carries a text, so the guard fails: the list
  contains the numeric inlet and outlet readings 100 and 90, whose difference is below
  20, and is classified Normal by the default.
\<close>

theorem classify_temperature_fallback_counterexample:
  "find isStatusSensor c1_input = None \<and>
   c1_input ! 1 \<in> set c1_input \<and> isInletTemp (c1_input ! 1) \<and> val (c1_input ! 1) = Num 100 \<and>
   c1_input ! 2 \<in> set c1_input \<and> isOutletTemp (c1_input ! 2) \<and> val (c1_input ! 2) = Num 90 \<and>
   (100 :: real) - 90 < 20 \<and>
   status (getTrapStatus exactRuntime c1_input) = ''Normal'' \<and>
   status (getTrapStatus exactRuntime c1_input) \<noteq> ''Heavy Flooding''"
proof -
  have a: "find isStatusSensor c1_input = None"
    by (simp add: c1_input_def label_eval)
  have b: "tempPair c1_input = None"
    by (simp add: c1_input_def tempPair_def label_eval truthy_def isNumber_def)
  have c: "getTrapStatus exactRuntime c1_input = defaultStatus"
    using statusLookup_no_sensor[OF a] b by (simp add: getTrapStatus_def)
  show ?thesis
    using a by (simp add: c status_default) (simp add: c1_input_def label_eval)
qed

section \<open>The tier counts add up to the number of devices\<close>

lemma addTempDiff_counts [simp]: "acc_statusCounts (addTempDiff rt rs acc) = acc_statusCounts acc"
  by (simp add: addTempDiff_def split: option.splits prod.splits)

lemma countStatus_counts:
  "acc_statusCounts (countStatus c acc) =
     addCounts (acc_statusCounts acc) (acc_statusCounts (countStatus c initAcc))"
  by (simp add: countStatus_def addCounts_def initAcc_def Let_def)

lemma kpiRow_counts:
  "acc_statusCounts (kpiRow rt acc row) = addCounts (acc_statusCounts acc) (rowCounts rt row)"
proof (cases "sensorData row = []")
  case True
  then show ?thesis by (simp add: kpiRow_def rowCounts_def addCounts_def initAcc_def)
next
  case False
  then show ?thesis
    using countStatus_counts[of "statusCode (getTrapStatus rt (sensorData row))" acc]
    by (simp add: kpiRow_def rowCounts_def)
qed

lemma rowCounts_offline: "sensorData row = [] \<Longrightarrow> rowCounts rt row = unitCounts ''offline''"
  by (simp add: rowCounts_def kpiRow_def initAcc_def unitCounts_def)

lemma rowCounts_online:
  assumes "sensorData row \<noteq> []"
  shows "rowCounts rt row =
     (if statusCode (getTrapStatus rt (sensorData row)) = 1 then unitCounts ''normal''
      else if statusCode (getTrapStatus rt (sensorData row)) \<in> {3, 5} then unitCounts ''warning''
      else unitCounts ''critical'')"
proof -
  have "statusCode (getTrapStatus rt (sensorData row)) \<in> {1, 3, 5, 6, 9}"
    by (rule getTrapStatus_code)
  then show ?thesis
    using assms by (auto simp: rowCounts_def kpiRow_def countStatus_unit)
qed

lemma totalCount_unit: "t \<in> set tiers \<Longrightarrow> totalCount (unitCounts t) = 1"
  by (auto simp: tiers_def totalCount_def unitCounts_def)

lemma rowCounts_unit: "\<exists>t \<in> set tiers. rowCounts rt row = unitCounts t"
proof (cases "sensorData row = []")
  case True
  then show ?thesis using rowCounts_offline[of row rt] by (simp add: tiers_def)
next
  case False
  then show ?thesis using rowCounts_online[of row rt] by (simp add: tiers_def)
qed

lemma totalCount_row: "totalCount (rowCounts rt row) = 1"
  using rowCounts_unit[of rt row] totalCount_unit by auto

lemma totalCount_add: "totalCount (addCounts x y) = totalCount x + totalCount y"
  by (simp add: totalCount_def addCounts_def)

lemma foldl_kpiRow_total:
  "totalCount (acc_statusCounts (foldl (kpiRow rt) acc rows)) =
     totalCount (acc_statusCounts acc) + length rows"
  by (induction rows arbitrary: acc) (simp_all add: kpiRow_counts totalCount_add totalCount_row)

lemma kpiLoop_total: "totalCount (acc_statusCounts (kpiLoop rt deviceRows)) = length deviceRows"
  by (simp add: kpiLoop_def foldl_kpiRow_total) (simp add: initAcc_def totalCount_def)

lemma calculateKPIs_fields:
  "totalDevices (calculateKPIs fmt rt devices deviceRows) = length devices"
  "statusCounts (calculateKPIs fmt rt devices deviceRows) = acc_statusCounts (kpiLoop rt deviceRows)"
  "totalEnergyLoss (calculateKPIs fmt rt devices deviceRows) = fmt (acc_totalEnergyLoss (kpiLoop rt deviceRows))"
  by (simp_all add: calculateKPIs_def Let_def)

lemma covering_length:
  assumes "distinct (map fst deviceRows)" "distinct (map devID devices)"
    and "set (map fst deviceRows) = set (map devID devices)"
  shows "length deviceRows = length devices"
proof -
  have "length deviceRows = card (set (map fst deviceRows))"
    using distinct_card[OF assms(1)] by simp
  also have "\<dots> = card (set (map devID devices))"
    using assms(3) by simp
  also have "\<dots> = length devices"
    using distinct_card[OF assms(2)] by simp
  finally show ?thesis .
qed

lemma toFixed1_examples:
  "toFixed1 15 = ''15.0''" "toFixed1 0 = ''0.0''" "toFixed1 (-3.25) = ''-3.3''" "toFixed1 20.04 = ''20.0''"
  by (simp_all add: toFixed1_def)

text \<open>
  Claim C3. When the keys of \<open>deviceRows\<close> are exactly the identifiers of the current
  device list, the identifiers being unique, the four counters of every
  \<open>calculateKPIs\<close> call add up to \<open>totalDevices\<close>. Each pass of the loop adds one to
  exactly one counter, so each device is counted in exactly one tier.
\<close>

theorem counts_sum_to_total:
  assumes "distinct (map fst deviceRows)" and "distinct (map devID devices)"
    and "set (map fst deviceRows) = set (map devID devices)"
  shows "normal (statusCounts (calculateKPIs fmt rt devices deviceRows)) +
         warning (statusCounts (calculateKPIs fmt rt devices deviceRows)) +
         critical (statusCounts (calculateKPIs fmt rt devices deviceRows)) +
         offline (statusCounts (calculateKPIs fmt rt devices deviceRows)) =
           totalDevices (calculateKPIs fmt rt devices deviceRows) \<and>
         (\<forall>acc row. \<exists>t \<in> set tiers.
            acc_statusCounts (kpiRow rt acc row) = addCounts (acc_statusCounts acc) (unitCounts t))"
proof
  show "normal (statusCounts (calculateKPIs fmt rt devices deviceRows)) +
         warning (statusCounts (calculateKPIs fmt rt devices deviceRows)) +
         critical (statusCounts (calculateKPIs fmt rt devices deviceRows)) +
         offline (statusCounts (calculateKPIs fmt rt devices deviceRows)) =
           totalDevices (calculateKPIs fmt rt devices deviceRows)"
    using kpiLoop_total[of rt deviceRows] covering_length[OF assms]
    by (simp add: calculateKPIs_fields totalCount_def)
  show "\<forall>acc row. \<exists>t \<in> set tiers.
            acc_statusCounts (kpiRow rt acc row) = addCounts (acc_statusCounts acc) (unitCounts t)"
  proof (intro allI)
    fix acc row
    obtain t where "t \<in> set tiers" "rowCounts rt row = unitCounts t"
      using rowCounts_unit[of rt row] by blast
    then show "\<exists>t \<in> set tiers.
            acc_statusCounts (kpiRow rt acc row) = addCounts (acc_statusCounts acc) (unitCounts t)"
      by (intro bexI[of _ t]) (simp_all add: kpiRow_counts)
  qed
qed

theorem counts_sum_to_total_witness:
  "distinct (map fst c3_rows) \<and> distinct (map devID c3_devices) \<and>
   set (map fst c3_rows) = set (map devID c3_devices) \<and>
   normal (statusCounts (calculateKPIs toFixed1 exactRuntime c3_devices c3_rows)) +
   warning (statusCounts (calculateKPIs toFixed1 exactRuntime c3_devices c3_rows)) +
   critical (statusCounts (calculateKPIs toFixed1 exactRuntime c3_devices c3_rows)) +
   offline (statusCounts (calculateKPIs toFixed1 exactRuntime c3_devices c3_rows)) = 2 \<and>
   totalDevices (calculateKPIs toFixed1 exactRuntime c3_devices c3_rows) = 2"
proof -
  have a: "distinct (map fst c3_rows)" "distinct (map devID c3_devices)"
    by (simp_all add: c3_rows_def c3_devices_def)
  have b: "set (map fst c3_rows) = set (map devID c3_devices)"
    by (simp add: c3_rows_def c3_devices_def)
  have c: "totalDevices (calculateKPIs toFixed1 exactRuntime c3_devices c3_rows) = 2"
    by (simp add: calculateKPIs_fields c3_devices_def)
  show ?thesis
    using counts_sum_to_total[OF a b, of toFixed1 exactRuntime] a b c by simp
qed

section \<open>Estimated energy loss\<close>

lemma addTempDiff_energy [simp]:
  "acc_totalEnergyLoss (addTempDiff rt rs acc) = acc_totalEnergyLoss acc"
  by (simp add: addTempDiff_def split: option.splits prod.splits)

lemma countStatus_energy:
  "acc_totalEnergyLoss (countStatus c acc) =
     acc_totalEnergyLoss acc + (if c = 9 then 15 else if c = 6 then 10 else 0)"
  by (simp add: countStatus_def Let_def)

lemma status_of_code:
  assumes "statusCode (getTrapStatus rt rs) = c" "(name, c) \<in> set statusTable"
  shows "status (getTrapStatus rt rs) = name"
  using getTrapStatus_in_table[of rt rs] assms statusTable_code_unique[of name c] by simp

lemma classifiedAs_code:
  "classifiedAs rt ''Heavy Leak'' 9 row =
     (sensorData row \<noteq> [] \<and> statusCode (getTrapStatus rt (sensorData row)) = 9)"
  "classifiedAs rt ''Choking'' 6 row =
     (sensorData row \<noteq> [] \<and> statusCode (getTrapStatus rt (sensorData row)) = 6)"
  using status_of_code[of rt "sensorData row" 9 "''Heavy Leak''"]
    status_of_code[of rt "sensorData row" 6 "''Choking''"]
  by (auto simp: classifiedAs_def statusTable_def)

lemma kpiRow_energy:
  "acc_totalEnergyLoss (kpiRow rt acc row) = acc_totalEnergyLoss acc + rowEnergy rt row"
  by (simp add: kpiRow_def rowEnergy_def classifiedAs_code countStatus_energy)

lemma foldl_kpiRow_energy:
  "acc_totalEnergyLoss (foldl (kpiRow rt) acc rows) =
     acc_totalEnergyLoss acc + sum_list (map (rowEnergy rt) rows)"
  by (induction rows arbitrary: acc) (simp_all add: kpiRow_energy)

lemma sum_rowEnergy:
  "sum_list (map (rowEnergy rt) rows) =
     10 * real (length (filter (classifiedAs rt ''Choking'' 6) rows)) +
     15 * real (length (filter (classifiedAs rt ''Heavy Leak'' 9) rows))"
  by (induction rows) (auto simp: rowEnergy_def classifiedAs_def)

lemma kpiLoop_energy:
  "acc_totalEnergyLoss (kpiLoop rt deviceRows) =
     10 * real (length (filter (classifiedAs rt ''Choking'' 6) (map snd deviceRows))) +
     15 * real (length (filter (classifiedAs rt ''Heavy Leak'' 9) (map snd deviceRows)))"
  unfolding kpiLoop_def foldl_kpiRow_energy sum_rowEnergy by (simp add: initAcc_def)

lemma sensorData_mkRow [simp]: "sensorData (mkRow d rs) = rs"
  by (simp add: mkRow_def)

lemma status_reading_code:
  assumes "numToString rt x = s" "parseInt s = Some c" "(name, c) \<in> set statusTable"
  shows "status (getTrapStatus rt [reading ''status'' (Num x)]) = name \<and>
         statusCode (getTrapStatus rt [reading ''status'' (Num x)]) = c"
proof (rule statusLookup_code[OF find_status_single])
  show "val (reading ''status'' (Num x)) \<noteq> Null"
    by (simp add: reading_def)
  show "parseInt (String_of rt (val (reading ''status'' (Num x)))) = Some c"
    using assms(1,2) by (simp add: reading_def String_of_def)
  show "(name, c) \<in> set statusTable" by (rule assms(3))
qed

text \<open>
  Claim C7. The energy loss that \<open>calculateKPIs\<close> reports is the formatted sum of 10
  units for each device classified Choking, code 6, and 15 units for each device
  classified Heavy Leak, code 9; these are the devices of the critical tier. In
  particular a device whose reading set is the single reading \<open>status = 9\<close> is Heavy
  Leak, code 9, tier critical, and its pass of the loop adds exactly 15 units, where
  the text of the number 9 is \<open>9\<close>.
\<close>

theorem energy_loss_sum:
  "totalEnergyLoss (calculateKPIs fmt rt devices deviceRows) =
     fmt (10 * real (length (filter (classifiedAs rt ''Choking'' 6) (map snd deviceRows))) +
          15 * real (length (filter (classifiedAs rt ''Heavy Leak'' 9) (map snd deviceRows)))) \<and>
   (numToString rt 9 = ''9'' \<longrightarrow>
      status (getTrapStatus rt [reading ''status'' (Num 9)]) = ''Heavy Leak'' \<and>
      statusCode (getTrapStatus rt [reading ''status'' (Num 9)]) = 9 \<and>
      inTier ''critical'' (getTrapStatus rt [reading ''status'' (Num 9)]) \<and>
      acc_totalEnergyLoss (kpiRow rt initAcc (mkRow d [reading ''status'' (Num 9)])) = 15)"
proof (intro conjI impI)
  show "totalEnergyLoss (calculateKPIs fmt rt devices deviceRows) =
     fmt (10 * real (length (filter (classifiedAs rt ''Choking'' 6) (map snd deviceRows))) +
          15 * real (length (filter (classifiedAs rt ''Heavy Leak'' 9) (map snd deviceRows))))"
    by (simp only: calculateKPIs_fields kpiLoop_energy)
next
  assume nine: "numToString rt 9 = ''9''"
  have tab: "(''Heavy Leak'', 9, ''critical'') \<in> set healthTable"
    by (simp add: healthTable_def)
  have sc: "status (getTrapStatus rt [reading ''status'' (Num 9)]) = ''Heavy Leak'' \<and>
      statusCode (getTrapStatus rt [reading ''status'' (Num 9)]) = 9"
    using status_reading_code[of rt 9 "''9''" 9 "''Heavy Leak''"] nine parseInt_digit(2)
      healthTable_statusTable[OF tab]
    by simp
  then show "status (getTrapStatus rt [reading ''status'' (Num 9)]) = ''Heavy Leak''"
    "statusCode (getTrapStatus rt [reading ''status'' (Num 9)]) = 9"
    by simp_all
  show "inTier ''critical'' (getTrapStatus rt [reading ''status'' (Num 9)])"
    by (rule inTier_of_code[OF tab]) (simp add: sc)
  show "acc_totalEnergyLoss (kpiRow rt initAcc (mkRow d [reading ''status'' (Num 9)])) = 15"
    using sc by (simp add: kpiRow_def countStatus_energy) (simp add: initAcc_def)
qed

theorem energy_loss_sum_witness:
  "numToString exactRuntime 9 = ''9'' \<and>
   totalEnergyLoss (calculateKPIs toFixed1 exactRuntime c7_devices c7_rows) = ''25.0'' \<and>
   status (getTrapStatus exactRuntime [reading ''status'' (Num 9)]) = ''Heavy Leak'' \<and>
   acc_totalEnergyLoss
     (kpiRow exactRuntime initAcc (mkRow (c7_devices ! 0) [reading ''status'' (Num 9)])) = 15"
proof -
  have r1: "statusCode (getTrapStatus exactRuntime [reading ''status'' (Num 9)]) = 9"
    using status_reading_code[of exactRuntime 9 "''9''" 9 "''Heavy Leak''"]
    by (simp add: statusTable_def integerToString_digit parseInt_digit)
  have r2: "statusCode (getTrapStatus exactRuntime [reading ''status'' (Num 6)]) = 6"
    using status_reading_code[of exactRuntime 6 "''6''" 6 "''Choking''"]
    by (simp add: statusTable_def integerToString_digit parseInt_six)
  have r3: "statusCode (getTrapStatus exactRuntime [reading ''status'' (Num 1)]) = 1"
    using status_reading_code[of exactRuntime 1 "''1''" 1 "''Normal''"]
    by (simp add: statusTable_def integerToString_digit parseInt_digit)
  have six: "length (filter (classifiedAs exactRuntime ''Choking'' 6) (map snd c7_rows)) = 1"
    by (simp add: c7_rows_def classifiedAs_code r1 r2 r3)
  have nine: "length (filter (classifiedAs exactRuntime ''Heavy Leak'' 9) (map snd c7_rows)) = 1"
    by (simp add: c7_rows_def classifiedAs_code r1 r2 r3)
  have fmt: "toFixed1 25 = ''25.0''"
    by (simp add: toFixed1_def)
  note inst = energy_loss_sum[of toFixed1 exactRuntime c7_devices c7_rows "c7_devices ! 0"]
  have total: "totalEnergyLoss (calculateKPIs toFixed1 exactRuntime c7_devices c7_rows) = ''25.0''"
    using inst[THEN conjunct1] unfolding six nine by (simp add: fmt)
  have example: "status (getTrapStatus exactRuntime [reading ''status'' (Num 9)]) = ''Heavy Leak'' \<and>
   acc_totalEnergyLoss
     (kpiRow exactRuntime initAcc (mkRow (c7_devices ! 0) [reading ''status'' (Num 9)])) = 15"
    using inst[THEN conjunct2] integerToString_digit(2) by simp
  show ?thesis
    using total example integerToString_digit(2) by simp
qed

section \<open>Average temperature differential\<close>

lemma tempPair_Nil [simp]: "tempPair [] = None"
  by (simp add: tempPair_def)

lemma tempPair_noZero: "noZeroTemp rs \<Longrightarrow> tempPair rs = locatedTemps rs"
  by (auto simp: noZeroTemp_def notZero_def tempPair_def locatedTemps_def truthy_def isNumber_def
      numberOf_def split: option.splits jsvalue.splits)

lemma codeTempDiff_noZero:
  "noZeroTemp (sensorData row) \<Longrightarrow> codeTempDiff rt row = rowTempDiff rt row"
  by (simp add: codeTempDiff_def rowTempDiff_def tempPair_noZero)

lemma map_filter_Cons:
  "List.map_filter f (x # xs) = (case f x of None \<Rightarrow> List.map_filter f xs | Some y \<Rightarrow> y # List.map_filter f xs)"
  by (simp add: List.map_filter_def split: option.splits)

lemma map_filter_Nil: "List.map_filter f [] = []"
  by (simp add: List.map_filter_def)

lemma map_filter_agree:
  "(\<forall>x \<in> set xs. f x = g x) \<Longrightarrow> List.map_filter f xs = List.map_filter g xs"
  by (induction xs) (auto simp: map_filter_Cons map_filter_Nil split: option.splits)

lemma countStatus_temp [simp]:
  "acc_avgTempDifferential (countStatus c acc) = acc_avgTempDifferential acc"
  "acc_tempDiffCount (countStatus c acc) = acc_tempDiffCount acc"
  by (simp_all add: countStatus_def Let_def)

lemma kpiRow_temp:
  "acc_avgTempDifferential (kpiRow rt acc row) =
     (case codeTempDiff rt row of
        None \<Rightarrow> acc_avgTempDifferential acc
      | Some x \<Rightarrow> fadd rt (acc_avgTempDifferential acc) x)"
  "acc_tempDiffCount (kpiRow rt acc row) =
     acc_tempDiffCount acc + (case codeTempDiff rt row of None \<Rightarrow> 0 | Some x \<Rightarrow> 1)"
  by (auto simp: kpiRow_def addTempDiff_def codeTempDiff_def split: option.splits)

lemma foldl_kpiRow_temp:
  "acc_avgTempDifferential (foldl (kpiRow rt) acc rows) =
     foldl (fadd rt) (acc_avgTempDifferential acc) (List.map_filter (codeTempDiff rt) rows) \<and>
   acc_tempDiffCount (foldl (kpiRow rt) acc rows) =
     acc_tempDiffCount acc + length (List.map_filter (codeTempDiff rt) rows)"
  by (induction rows arbitrary: acc)
     (simp_all add: kpiRow_temp map_filter_Cons map_filter_Nil split: option.splits)

lemma kpiLoop_temp:
  "acc_avgTempDifferential (kpiLoop rt deviceRows) =
     foldl (fadd rt) 0 (List.map_filter (codeTempDiff rt) (map snd deviceRows))"
  "acc_tempDiffCount (kpiLoop rt deviceRows) =
     length (List.map_filter (codeTempDiff rt) (map snd deviceRows))"
  unfolding kpiLoop_def using foldl_kpiRow_temp[of rt initAcc "map snd deviceRows"]
  by (simp_all add: initAcc_def)

lemma calculateKPIs_avg:
  "avgTempDifferential (calculateKPIs fmt rt devices deviceRows) =
     fmt (runtimeMean rt (List.map_filter (codeTempDiff rt) (map snd deviceRows)))"
  unfolding calculateKPIs_def Let_def kpiLoop_temp runtimeMean_def by simp

lemma rowTempDiff_empty: "sensorData row = [] \<Longrightarrow> rowTempDiff rt row = None"
  by (simp add: rowTempDiff_def locatedTemps_def)

lemma codeTempDiff_empty: "sensorData row = [] \<Longrightarrow> codeTempDiff rt row = None"
  by (simp add: codeTempDiff_def)

lemma map_filter_append:
  "List.map_filter f (xs @ ys) = List.map_filter f xs @ List.map_filter f ys"
  by (simp add: List.map_filter_def)

text \<open>
  Claim C6, as the code has it. The aggregator takes, for each device, the first
  reading whose label contains \<open>inlet\<close> and \<open>temp\<close> and the first whose label contains
  \<open>outlet\<close> and \<open>temp\<close>; the device qualifies when both carry a number. For every
  snapshot set in which none of these located readings is the number zero, the
  reported average is the formatted mean of inlet minus outlet over the qualifying
  devices as the runtime computes it in double arithmetic: each difference is a
  double subtraction, the differences are added from 0 in the order of the rows, and
  the sum is divided by the number of qualifying devices. A device that does not
  qualify adds nothing to the sum and is not in the divisor; adding a device with an
  empty reading list leaves the average as it is; the result is the formatted 0 when
  no device qualifies.
\<close>

theorem avg_temp_differential:
  "((\<forall>row \<in> set (map snd deviceRows). noZeroTemp (sensorData row)) \<longrightarrow>
      avgTempDifferential (calculateKPIs fmt rt devices deviceRows) =
        fmt (runtimeMean rt (tempDiffs rt (map snd deviceRows)))) \<and>
   (sensorData row = [] \<longrightarrow>
      avgTempDifferential (calculateKPIs fmt rt devices (deviceRows @ [(k, row)])) =
        avgTempDifferential (calculateKPIs fmt rt devices deviceRows)) \<and>
   (tempDiffs rt (map snd deviceRows) = [] \<and>
    (\<forall>row \<in> set (map snd deviceRows). noZeroTemp (sensorData row)) \<longrightarrow>
      avgTempDifferential (calculateKPIs fmt rt devices deviceRows) = fmt 0)"
proof (intro conjI impI)
  assume h: "\<forall>row \<in> set (map snd deviceRows). noZeroTemp (sensorData row)"
  then have "List.map_filter (codeTempDiff rt) (map snd deviceRows) =
      tempDiffs rt (map snd deviceRows)"
    unfolding tempDiffs_def by (intro map_filter_agree) (simp add: codeTempDiff_noZero)
  then show "avgTempDifferential (calculateKPIs fmt rt devices deviceRows) =
        fmt (runtimeMean rt (tempDiffs rt (map snd deviceRows)))"
    by (simp add: calculateKPIs_avg)
next
  assume "sensorData row = []"
  then show "avgTempDifferential (calculateKPIs fmt rt devices (deviceRows @ [(k, row)])) =
        avgTempDifferential (calculateKPIs fmt rt devices deviceRows)"
    by (simp add: calculateKPIs_avg map_filter_append map_filter_Cons map_filter_Nil
        codeTempDiff_empty)
next
  assume h: "tempDiffs rt (map snd deviceRows) = [] \<and>
    (\<forall>row \<in> set (map snd deviceRows). noZeroTemp (sensorData row))"
  then have "List.map_filter (codeTempDiff rt) (map snd deviceRows) =
      tempDiffs rt (map snd deviceRows)"
    unfolding tempDiffs_def by (intro map_filter_agree) (simp add: codeTempDiff_noZero)
  then show "avgTempDifferential (calculateKPIs fmt rt devices deviceRows) = fmt 0"
    using h by (simp add: calculateKPIs_avg runtimeMean_def)
qed

lemmas temp_eval = tempPair_def locatedTemps_def truthy_def isNumber_def numberOf_def label_eval

lemma c6_good_noZero: "\<forall>row \<in> set (map snd c6_good_rows). noZeroTemp (sensorData row)"
  by (simp add: c6_good_rows_def noZeroTemp_def notZero_def label_eval)

lemma c6_good_diffs: "tempDiffs exactRuntime (map snd c6_good_rows) = [20, 130]"
  by (simp add: c6_good_rows_def tempDiffs_def rowTempDiff_def map_filter_Cons map_filter_Nil
      temp_eval exactRuntime_def)

theorem avg_temp_differential_witness:
  "list_all (\<lambda>row. noZeroTemp (sensorData row)) (map snd c6_good_rows) \<and>
   tempDiffs exactRuntime (map snd c6_good_rows) = [20, 130] \<and>
   runtimeMean exactRuntime [20, 130] = 75 \<and>
   avgTempDifferential (calculateKPIs toFixed1 exactRuntime c6_devices c6_good_rows) = ''75.0''"
proof -
  have m: "runtimeMean exactRuntime [20, 130] = 75"
    by (simp add: runtimeMean_def exactRuntime_def)
  have fmt: "toFixed1 75 = ''75.0''"
    by (simp add: toFixed1_def)
  have "avgTempDifferential (calculateKPIs toFixed1 exactRuntime c6_devices c6_good_rows) =
      toFixed1 (runtimeMean exactRuntime (tempDiffs exactRuntime (map snd c6_good_rows)))"
    using avg_temp_differential[of c6_good_rows toFixed1 exactRuntime c6_devices, THEN conjunct1]
      c6_good_noZero
    by blast
  then show ?thesis
    using c6_good_noZero by (simp add: c6_good_diffs m fmt list_all_iff)
qed

text \<open>
  A numeric reading behind a first reading that is not numeric is not found: the
  device below carries the numeric inlet reading 120 and the numeric outlet reading
  100, so the mean over the devices with both numeric readings is 20, and the
  aggregator reports 0.
\<close>

theorem avg_temp_differential_counterexample:
  "spec_avgTempDifferential (map snd c6_rows) = 20 \<and>
   toFixed1 20 = ''20.0'' \<and>
   avgTempDifferential (calculateKPIs toFixed1 exactRuntime c6_devices c6_rows) = ''0.0''"
proof -
  have spec: "spec_avgTempDifferential (map snd c6_rows) = 20"
    by (simp add: spec_avgTempDifferential_def spec_tempDiff_def spec_numericReading_def
        c6_rows_def map_filter_Cons map_filter_Nil mean_def temp_eval)
  have code: "List.map_filter (codeTempDiff exactRuntime) (map snd c6_rows) = []"
    by (simp add: c6_rows_def codeTempDiff_def map_filter_Cons map_filter_Nil temp_eval)
  have fmt: "toFixed1 20 = ''20.0''" "toFixed1 0 = ''0.0''"
    by (simp_all add: toFixed1_def)
  show ?thesis
    by (simp add: spec fmt calculateKPIs_avg code runtimeMean_def)
qed

text \<open>
  A located reading of exactly zero is falsy and fails the guard as a missing value
  does: the classifier falls through to the default, and the aggregator leaves the
  device out of the average.
\<close>

lemma zero_reading_skips_guard:
  "tempPair [reading ''inlet temp'' (Num 0), reading ''outlet temp'' (Num 10)] = None"
  "status (getTrapStatus rt [reading ''inlet temp'' (Num 0), reading ''outlet temp'' (Num 10)]) =
     ''Normal''"
proof -
  show none: "tempPair [reading ''inlet temp'' (Num 0), reading ''outlet temp'' (Num 10)] = None"
    by (simp add: temp_eval)
  have "statusLookup rt [reading ''inlet temp'' (Num 0), reading ''outlet temp'' (Num 10)] = None"
    by (rule statusLookup_no_sensor[OF find_no_status_example])
  then show "status (getTrapStatus rt [reading ''inlet temp'' (Num 0), reading ''outlet temp'' (Num 10)]) =
     ''Normal''"
    using none by (simp add: getTrapStatus_def status_default)
qed

section \<open>The aggregator and the filter bucket alike\<close>

lemma unitCounts_eq: "t \<in> set tiers \<Longrightarrow> u \<in> set tiers \<Longrightarrow> (unitCounts t = unitCounts u) = (t = u)"
  by (auto simp: tiers_def unitCounts_def)

lemma tiers_mem:
  "''normal'' \<in> set tiers" "''warning'' \<in> set tiers" "''critical'' \<in> set tiers"
  "''offline'' \<in> set tiers"
  by (simp_all add: tiers_def)

lemma filtered_mem:
  assumes "map_of deviceRows (devID d) = Some row" "d \<in> set devices" "t \<in> set tiers"
  shows "(d \<in> set (getFilteredDevices rt t devices deviceRows)) =
     (if sensorData row = [] then t = ''offline''
      else filterSwitch t (getTrapStatus rt (sensorData row)))"
proof -
  have "t \<noteq> ''all''" using assms(3) by (auto simp: tiers_def)
  then show ?thesis using assms(1,2)
    by (simp add: getFilteredDevices_def matchesFilter_def)
qed

lemma rowCounts_tier:
  assumes "sensorData row \<noteq> []"
  shows "(rowCounts rt row = unitCounts ''normal'') = (statusCode (getTrapStatus rt (sensorData row)) = 1)"
    and "(rowCounts rt row = unitCounts ''warning'') =
           (statusCode (getTrapStatus rt (sensorData row)) = 3 \<or>
            statusCode (getTrapStatus rt (sensorData row)) = 5)"
    and "(rowCounts rt row = unitCounts ''critical'') =
           (statusCode (getTrapStatus rt (sensorData row)) = 6 \<or>
            statusCode (getTrapStatus rt (sensorData row)) = 9)"
    and "rowCounts rt row \<noteq> unitCounts ''offline''"
proof -
  have c: "statusCode (getTrapStatus rt (sensorData row)) \<in> {1, 3, 5, 6, 9}"
    by (rule getTrapStatus_code)
  note r = rowCounts_online[OF assms, of rt]
  note u = unitCounts_eq tiers_mem
  show "(rowCounts rt row = unitCounts ''normal'') = (statusCode (getTrapStatus rt (sensorData row)) = 1)"
    using c by (auto simp: r u)
  show "(rowCounts rt row = unitCounts ''warning'') =
           (statusCode (getTrapStatus rt (sensorData row)) = 3 \<or>
            statusCode (getTrapStatus rt (sensorData row)) = 5)"
    using c by (auto simp: r u)
  show "(rowCounts rt row = unitCounts ''critical'') =
           (statusCode (getTrapStatus rt (sensorData row)) = 6 \<or>
            statusCode (getTrapStatus rt (sensorData row)) = 9)"
    using c by (auto simp: r u)
  show "rowCounts rt row \<noteq> unitCounts ''offline''"
    using c by (auto simp: r u)
qed

text \<open>
  Claim C2. Take a device of the device list and its row in \<open>deviceRows\<close>. When the
  row has readings, the pass of the aggregator's loop over the row counts it as normal
  (as warning, as critical) if and only if the filter returns the device under tier
  normal (warning, critical); it is not counted offline and the filter does not
  return it under tier offline. When the row has no reading, the aggregator counts
  it offline and the filter returns the device under tier offline and under no other
  tier.
\<close>

theorem tier_bucketing_agrees:
  assumes "map_of deviceRows (devID d) = Some row" and "d \<in> set devices"
  shows "(sensorData row \<noteq> [] \<longrightarrow>
            (rowCounts rt row = unitCounts ''normal'') =
              (d \<in> set (getFilteredDevices rt ''normal'' devices deviceRows)) \<and>
            (rowCounts rt row = unitCounts ''warning'') =
              (d \<in> set (getFilteredDevices rt ''warning'' devices deviceRows)) \<and>
            (rowCounts rt row = unitCounts ''critical'') =
              (d \<in> set (getFilteredDevices rt ''critical'' devices deviceRows)) \<and>
            rowCounts rt row \<noteq> unitCounts ''offline'' \<and>
            d \<notin> set (getFilteredDevices rt ''offline'' devices deviceRows)) \<and>
         (sensorData row = [] \<longrightarrow>
            rowCounts rt row = unitCounts ''offline'' \<and>
            d \<in> set (getFilteredDevices rt ''offline'' devices deviceRows) \<and>
            d \<notin> set (getFilteredDevices rt ''normal'' devices deviceRows) \<and>
            d \<notin> set (getFilteredDevices rt ''warning'' devices deviceRows) \<and>
            d \<notin> set (getFilteredDevices rt ''critical'' devices deviceRows))"
proof (intro conjI impI)
  note f = filtered_mem[OF assms, of _ rt]
  {
    assume ne: "sensorData row \<noteq> []"
    note r = rowCounts_tier[OF ne, of rt]
    show "(rowCounts rt row = unitCounts ''normal'') =
              (d \<in> set (getFilteredDevices rt ''normal'' devices deviceRows))"
      using ne by (simp add: f tiers_mem r filterSwitch_tier)
    show "(rowCounts rt row = unitCounts ''warning'') =
              (d \<in> set (getFilteredDevices rt ''warning'' devices deviceRows))"
      using ne by (simp add: f tiers_mem r filterSwitch_tier)
    show "(rowCounts rt row = unitCounts ''critical'') =
              (d \<in> set (getFilteredDevices rt ''critical'' devices deviceRows))"
      using ne by (simp add: f tiers_mem r filterSwitch_tier)
    show "rowCounts rt row \<noteq> unitCounts ''offline''"
      by (rule r(4))
    show "d \<notin> set (getFilteredDevices rt ''offline'' devices deviceRows)"
      using ne by (simp add: f tiers_mem filterSwitch_tier)
  }
  {
    assume e: "sensorData row = []"
    show "rowCounts rt row = unitCounts ''offline''"
      by (rule rowCounts_offline[OF e])
    show "d \<in> set (getFilteredDevices rt ''offline'' devices deviceRows)"
      using e by (simp add: f tiers_mem)
    show "d \<notin> set (getFilteredDevices rt ''normal'' devices deviceRows)"
      using e by (simp add: f tiers_mem)
    show "d \<notin> set (getFilteredDevices rt ''warning'' devices deviceRows)"
      using e by (simp add: f tiers_mem)
    show "d \<notin> set (getFilteredDevices rt ''critical'' devices deviceRows)"
      using e by (simp add: f tiers_mem)
  }
qed

theorem tier_bucketing_agrees_witness:
  "map_of c2_rows (devID (c2_devices ! 0)) = Some (mkRow (c2_devices ! 0) [reading ''status'' (Num 6)]) \<and>
   c2_devices ! 0 \<in> set c2_devices \<and>
   rowCounts exactRuntime (mkRow (c2_devices ! 0) [reading ''status'' (Num 6)]) =
     unitCounts ''critical'' \<and>
   c2_devices ! 0 \<in> set (getFilteredDevices exactRuntime ''critical'' c2_devices c2_rows) \<and>
   map_of c2_rows (devID (c2_devices ! 1)) = Some (mkRow (c2_devices ! 1) []) \<and>
   c2_devices ! 1 \<in> set c2_devices \<and>
   rowCounts exactRuntime (mkRow (c2_devices ! 1) []) = unitCounts ''offline'' \<and>
   c2_devices ! 1 \<in> set (getFilteredDevices exactRuntime ''offline'' c2_devices c2_rows)"
proof -
  have row0: "map_of c2_rows (devID (c2_devices ! 0)) =
      Some (mkRow (c2_devices ! 0) [reading ''status'' (Num 6)])"
    by (simp add: c2_rows_def c2_devices_def)
  have row1: "map_of c2_rows (devID (c2_devices ! 1)) = Some (mkRow (c2_devices ! 1) [])"
    by (simp add: c2_rows_def c2_devices_def)
  have mem: "c2_devices ! 0 \<in> set c2_devices" "c2_devices ! 1 \<in> set c2_devices"
    by (simp_all add: c2_devices_def)
  have six: "statusCode (getTrapStatus exactRuntime [reading ''status'' (Num 6)]) = 6"
    using status_reading_code[of exactRuntime 6 "''6''" 6 "''Choking''"]
    by (simp add: statusTable_def integerToString_digit parseInt_six)
  have crit: "rowCounts exactRuntime (mkRow (c2_devices ! 0) [reading ''status'' (Num 6)]) =
      unitCounts ''critical''"
    using rowCounts_tier(3)[of "mkRow (c2_devices ! 0) [reading ''status'' (Num 6)]" exactRuntime]
    by (simp add: six)
  have first: "c2_devices ! 0 \<in> set (getFilteredDevices exactRuntime ''critical'' c2_devices c2_rows)"
    using tier_bucketing_agrees[OF row0 mem(1), of exactRuntime] crit by simp
  have second: "rowCounts exactRuntime (mkRow (c2_devices ! 1) []) = unitCounts ''offline'' \<and>
      c2_devices ! 1 \<in> set (getFilteredDevices exactRuntime ''offline'' c2_devices c2_rows)"
    using tier_bucketing_agrees[OF row1 mem(2), of exactRuntime] by simp
  show ?thesis
    using row0 row1 mem crit first second by simp
qed

section \<open>Device identification: two filters\<close>

lemma find_devID_distinct:
  assumes "distinct (map devID ds)" "d \<in> set ds"
  shows "find (\<lambda>x. devID x = devID d) ds = Some d"
  using assms by (induction ds) (auto simp: image_iff)

lemma distinct_filter_devID: "distinct (map devID ds) \<Longrightarrow> distinct (map devID (filter P ds))"
  by (simp add: distinct_map_filter)

lemma keepDevice_result:
  "keepDevice ds (case g (devID d) of None \<Rightarrow> None | Some m \<Rightarrow> Some (devID d, m)) =
     (if finePasses g d
      then (case find (\<lambda>x. devID x = devID d) ds of Some x \<Rightarrow> [x] | None \<Rightarrow> [])
      else [])"
  by (simp add: keepDevice_def finePasses_def split: option.splits)

lemma loadDevices_fst:
  "fst (loadDevices g deviceDetails) =
     concat (map (\<lambda>d. if finePasses g d
                       then (case find (\<lambda>x. devID x = devID d) (filter coarseFilter deviceDetails) of
                               Some x \<Rightarrow> [x] | None \<Rightarrow> [])
                       else [])
                 (filter coarseFilter deviceDetails))"
  by (simp add: loadDevices_def Let_def keepDevice_result comp_def)

lemma concat_singletons: "concat (map (\<lambda>d. if P d then [d] else []) xs) = filter P xs"
  by (induction xs) simp_all

lemma loadDevices_distinct:
  assumes "distinct (map devID deviceDetails)"
  shows "fst (loadDevices g deviceDetails) =
     filter (finePasses g) (filter coarseFilter deviceDetails)"
proof -
  let ?S = "filter coarseFilter deviceDetails"
  have dist: "distinct (map devID ?S)"
    by (rule distinct_filter_devID[OF assms])
  have "map (\<lambda>d. if finePasses g d
                       then (case find (\<lambda>x. devID x = devID d) ?S of
                               Some x \<Rightarrow> [x] | None \<Rightarrow> [])
                       else []) ?S =
        map (\<lambda>d. if finePasses g d then [d] else []) ?S"
    by (rule map_cong[OF refl]) (simp add: find_devID_distinct[OF dist])
  then have "fst (loadDevices g deviceDetails) =
      concat (map (\<lambda>d. if finePasses g d then [d] else []) ?S)"
    by (simp only: loadDevices_fst)
  also have "\<dots> = filter (finePasses g) ?S"
    by (rule concat_singletons)
  finally show ?thesis .
qed

lemma coarseFilter_c4: "coarseFilter c4_device" "coarseFilter c4_trap"
  by (simp_all add: coarseFilter_def c4_device_def c4_trap_def str_eval)

lemma fineFilter_c4: "\<not> fineFilter c4_metadata" "fineFilter c4_trap_metadata"
  by (simp_all add: fineFilter_def c4_metadata_def c4_trap_metadata_def str_eval)

text \<open>
  Claim C4, as the code has it. \<open>loadDevices\<close> filters twice, with two different
  predicates. The first keeps a device when its type identifier equals
  \<open>STEAM_TRAP3\<close> or, in lower case, contains \<open>steamtrap\<close> or \<open>steam\<close>. The second,
  once the metadata has arrived, keeps a device when its metadata is present and the
  metadata's type name, in lower case, contains \<open>steam trap\<close> or \<open>steamtrap\<close>, or the
  metadata's type identifier equals \<open>STEAM_TRAP3\<close> or, in lower case, contains
  \<open>steamtrap\<close>. With unique device identifiers the working set is exactly the devices
  of the raw list that pass both: a device that passes the first filter and fails the
  second, or has no metadata, is dropped.
\<close>

theorem device_identification:
  assumes "distinct (map devID deviceDetails)"
  shows "(d \<in> set (fst (loadDevices getDeviceMetaData deviceDetails))) =
           (d \<in> set deviceDetails \<and>
            (devTypeID d = Some ''STEAM_TRAP3'' \<or>
             lowerIncludes (devTypeID d) ''steamtrap'' \<or>
             lowerIncludes (devTypeID d) ''steam'') \<and>
            (\<exists>m. getDeviceMetaData (devID d) = Some m \<and>
               (lowerIncludes (devTypeName m) ''steam trap'' \<or>
                lowerIncludes (devTypeName m) ''steamtrap'' \<or>
                meta_devTypeID m = Some ''STEAM_TRAP3'' \<or>
                lowerIncludes (meta_devTypeID m) ''steamtrap'')))"
proof -
  have "(d \<in> set (fst (loadDevices getDeviceMetaData deviceDetails))) =
      (d \<in> set deviceDetails \<and> coarseFilter d \<and> finePasses getDeviceMetaData d)"
    by (simp add: loadDevices_distinct[OF assms])
  also have "finePasses getDeviceMetaData d =
      (\<exists>m. getDeviceMetaData (devID d) = Some m \<and> fineFilter m)"
    by (simp add: finePasses_def split: option.splits)
  finally show ?thesis
    by (simp only: coarseFilter_def fineFilter_def)
qed

theorem device_identification_witness:
  "distinct (map devID [c4_device, c4_trap]) \<and>
   c4_trap \<in> set (fst (loadDevices c4_getMetaData [c4_device, c4_trap])) \<and>
   c4_device \<notin> set (fst (loadDevices c4_getMetaData [c4_device, c4_trap]))"
proof -
  have dist: "distinct (map devID [c4_device, c4_trap])"
    by (simp add: c4_device_def c4_trap_def)
  have meta: "c4_getMetaData (devID c4_device) = Some c4_metadata"
    "c4_getMetaData (devID c4_trap) = Some c4_trap_metadata"
    by (simp_all add: c4_getMetaData_def c4_device_def c4_trap_def)
  note inst = device_identification[OF dist, of _ c4_getMetaData]
  have trap: "c4_trap \<in> set (fst (loadDevices c4_getMetaData [c4_device, c4_trap]))"
    unfolding inst using coarseFilter_c4(2) fineFilter_c4(2)
    by (simp add: meta coarseFilter_def fineFilter_def)
  have valve: "c4_device \<notin> set (fst (loadDevices c4_getMetaData [c4_device, c4_trap]))"
    unfolding inst using fineFilter_c4(1)
    by (simp add: meta fineFilter_def)
  show ?thesis using dist trap valve by simp
qed

text \<open>
  A device whose type identifier contains \<open>steam\<close> satisfies the predicate of the
  claim, with and without its metadata, and passes the first filter; the second
  filter is a different predicate, which it fails, and the device is dropped.
\<close>

theorem device_identification_counterexample:
  "spec_isMonitoredDevice (devTypeID c4_device) None \<and>
   spec_isMonitoredDevice (devTypeID c4_device) (devTypeName c4_metadata) \<and>
   c4_getMetaData (devID c4_device) = Some c4_metadata \<and>
   coarseFilter c4_device \<and> \<not> fineFilter c4_metadata \<and>
   c4_device \<notin> set (fst (loadDevices c4_getMetaData [c4_device]))"
proof -
  have spec: "spec_isMonitoredDevice (devTypeID c4_device) None"
    "spec_isMonitoredDevice (devTypeID c4_device) (devTypeName c4_metadata)"
    by (simp_all add: spec_isMonitoredDevice_def c4_device_def c4_metadata_def str_eval)
  have meta: "c4_getMetaData (devID c4_device) = Some c4_metadata"
    by (simp add: c4_getMetaData_def c4_device_def)
  have "fst (loadDevices c4_getMetaData [c4_device]) = []"
    using fineFilter_c4(1) coarseFilter_c4(1)
    by (simp add: loadDevices_fst finePasses_def meta)
  then show ?thesis
    using spec meta coarseFilter_c4(1) fineFilter_c4(1) by simp
qed

end
